theory Spec2Isabelle
  imports Main "HOL-Library.AList" "HOL-Library.Char_ord" "HOL-Library.List_Lexorder"
begin

section \<open>The analyze task of cluster-maintenance (debugging/tasks/analyze.js)\<close>

text \<open>
  A shallow embedding of \<^verbatim>\<open>exports.run\<close>. Every extractor of the source reads the
  agency dump and stores its findings in the shared \<^verbatim>\<open>info\<close> object; here
  \<^verbatim>\<open>info\<close> is a record that is passed along and returned updated, and a thrown
  JavaScript exception is the left summand of the result.
\<close>

subsection \<open>JavaScript values and library functions\<close>

datatype error = TypeError

text \<open>
  A plain object is the list of its own enumerable properties in the order
  \<^verbatim>\<open>Object.entries\<close>, \<^verbatim>\<open>Object.keys\<close> and lodash's \<^verbatim>\<open>_.each\<close> enumerate them
  (a \<^verbatim>\<open>Map\<close>: in insertion order). Values the analysis only copies are kept as
  text. The entries of the objects that \<^verbatim>\<open>_.each\<close> walks are objects themselves, so
  an entry named \<^verbatim>\<open>length\<close> does not make lodash take the object for an array.
\<close>

type_synonym 'a obj = "(string \<times> 'a) list"
type_synonym json = string

definition ownKey :: "'a obj \<Rightarrow> string \<Rightarrow> bool" where
  "ownKey ob k = (k \<in> set (map fst ob))"

text \<open>
  \<^verbatim>\<open>ob.hasOwnProperty(k)\<close>. The source calls the method through the data object, so
  the name \<^verbatim>\<open>hasOwnProperty\<close> is looked up on the object first: where the object has
  an own key of that name (a database called \<^verbatim>\<open>hasOwnProperty\<close>, say) the value
  found is data, not a function, and the call throws a TypeError. Otherwise the method
  of \<^verbatim>\<open>Object.prototype\<close> answers whether \<open>k\<close> is an own key.
\<close>

definition hasOwnProperty :: "'a obj \<Rightarrow> string \<Rightarrow> error + bool" where
  "hasOwnProperty ob k =
     (if ownKey ob ''hasOwnProperty'' then Inl TypeError else Inr (ownKey ob k))"

text \<open>
  \<^verbatim>\<open>ob[k]\<close> for a key of the object's own: \<^verbatim>\<open>undefined\<close> is \<open>None\<close>. (The same
  function reads a \<^verbatim>\<open>Map\<close> with \<^verbatim>\<open>get\<close>.)
\<close>

definition getProp :: "'a obj \<Rightarrow> string \<Rightarrow> 'a option" where
  "getProp ob k = map_of ob k"

text \<open>\<^verbatim>\<open>xs[i]\<close> on an array: \<^verbatim>\<open>undefined\<close> out of range.\<close>

definition at :: "'a list \<Rightarrow> nat \<Rightarrow> 'a option" where
  "at xs i = (if i < length xs then Some (xs ! i) else None)"

text \<open>
  A property key is a string: \<^verbatim>\<open>undefined\<close> used as a key reads the property
  named \<^verbatim>\<open>"undefined"\<close>.
\<close>

definition propertyKey :: "string option \<Rightarrow> string" where
  "propertyKey k = (case k of None \<Rightarrow> ''undefined'' | Some s \<Rightarrow> s)"

text \<open>
  \<^verbatim>\<open>indexOf\<close> of arrays and of strings (searched for one character): the first
  position at or after \<open>pos\<close>, or -1.
\<close>

fun firstIndex :: "'a \<Rightarrow> 'a list \<Rightarrow> nat \<Rightarrow> int" where
  "firstIndex x [] i = - 1"
| "firstIndex x (y # ys) i = (if y = x then int i else firstIndex x ys (Suc i))"

definition indexOf :: "'a list \<Rightarrow> 'a \<Rightarrow> int \<Rightarrow> int" where
  "indexOf xs x pos = (let k = nat pos in firstIndex x (drop k xs) (min k (length xs)))"

text \<open>\<^verbatim>\<open>s.slice(0, end)\<close>: a negative end counts from the end of the string.\<close>

definition slice0 :: "string \<Rightarrow> int \<Rightarrow> string" where
  "slice0 s e = (if e < 0 then take (nat (int (length s) + e)) s else take (nat e) s)"

definition startsWith :: "string \<Rightarrow> string \<Rightarrow> bool" where
  "startsWith s p = (take (length p) s = p)"

text \<open>\<^verbatim>\<open>s.replace(pat, rep)\<close> with a string pattern replaces the first occurrence.\<close>

fun replace :: "string \<Rightarrow> string \<Rightarrow> string \<Rightarrow> string" where
  "replace [] pat rep = (if pat = [] then rep else [])"
| "replace (c # cs) pat rep =
     (if startsWith (c # cs) pat then rep @ drop (length pat) (c # cs)
      else c # replace cs pat rep)"

text \<open>
  \<^verbatim>\<open>Map.prototype.set\<close>: an existing key keeps its place and gets the new value, a
  new key goes to the end. This is \<^const>\<open>AList.update\<close>. \<^verbatim>\<open>Map.prototype.has\<close> is a
  method of the map, not a key of the data.
\<close>

definition mapSet :: "string \<Rightarrow> 'a \<Rightarrow> 'a obj \<Rightarrow> 'a obj" where
  "mapSet k v m = AList.update k v m"

definition mapHas :: "'a obj \<Rightarrow> string \<Rightarrow> bool" where
  "mapHas m k = (k \<in> set (map fst m))"

subsection \<open>Array.prototype.sort\<close>

text \<open>
  The two comparators of this file return a boolean: \<^verbatim>\<open>true\<close> counts as 1 (the left
  argument goes after the right one), \<^verbatim>\<open>false\<close> as 0, and no call answers a
  negative number. For a comparator that is not consistent in this way the language
  leaves the order of the result to the engine, so the engine's sort is a parameter of
  the model: from the comparator, read on the positions of the array, and the length of
  the array it gives the positions in the order in which the sort leaves them.
\<close>

type_synonym engine = "(nat \<Rightarrow> nat \<Rightarrow> bool) \<Rightarrow> nat \<Rightarrow> nat list"

definition arraySort :: "engine \<Rightarrow> ('a \<Rightarrow> 'a \<Rightarrow> bool) \<Rightarrow> 'a list \<Rightarrow> 'a list" where
  "arraySort eng cmp xs =
     map (\<lambda>i. xs ! i)
         (filter (\<lambda>i. i < length xs) (eng (\<lambda>i j. cmp (xs ! i) (xs ! j)) (length xs)))"

text \<open>
  Two engines. V8 from version 7.0 on looks for runs that are in order already: it
  compares every element with its left neighbour and ends the run at the first negative
  answer. A boolean comparator gives none, the whole array is one run, and the array
  stays as it is.
\<close>

definition runOrder :: engine where
  "runOrder cmp n = [0..<n]"

text \<open>
  V8 before version 7.0 sorts an array of up to ten elements by insertion: an element
  moves left past its neighbour while the comparator, called with the neighbour first,
  answers \<^verbatim>\<open>true\<close>. The placed prefix is kept reversed. A longer array goes to a
  quicksort, which is not written out: it is a parameter of that engine.
\<close>

fun sortInsert :: "('a \<Rightarrow> 'a \<Rightarrow> bool) \<Rightarrow> 'a \<Rightarrow> 'a list \<Rightarrow> 'a list" where
  "sortInsert cmp element [] = [element]"
| "sortInsert cmp element (tmp # placed) =
     (if cmp tmp element then tmp # sortInsert cmp element placed
      else element # tmp # placed)"

definition insertionSort :: engine where
  "insertionSort cmp n =
     rev (foldl (\<lambda>placed element. sortInsert cmp element placed) [] [0..<n])"

definition legacyOrder :: "engine \<Rightarrow> engine" where
  "legacyOrder quickSort cmp n =
     (if n \<le> 10 then insertionSort cmp n else quickSort cmp n)"

subsection \<open>The agency dump\<close>

record health_entry =
  Status :: string
  Endpoint :: string

record supervision =
  Health :: "health_entry obj"

text \<open>
  The \<^verbatim>\<open>shards\<close> property of a planned collection: a falsy value (absent,
  \<^verbatim>\<open>null\<close>), a truthy value that is not a plain object (an array, for one) with its
  enumerable entries, or a plain object from shard name to servers.
\<close>

datatype shards_field =
  ShardsFalsy
  | ShardsOther "string list obj"
  | ShardsObject "string list obj"

record index =
  ix_id :: string
  ix_type :: string
  ix_name :: string
  ix_fields :: "string list"
  ix_unique :: bool
  ix_sparse :: bool

record collection =
  shards :: shards_field
  distributeShardsLike :: "string option"
  isSmart :: bool
  indexes :: "index list option"

record plan =
  Plan_Databases :: "json obj"
  Plan_Collections :: "collection obj obj"
  Plan_Coordinators :: "json obj"

record current_shard =
  servers :: "string list"
  failoverCandidates :: "string list"

record current =
  Current_Databases :: "json obj obj"
  Current_Collections :: "current_shard obj obj obj"
  Current_Coordinators :: "json obj"

record target =
  CleanedServers :: "string list"

text \<open>
  \<^verbatim>\<open>dump.arango\<close>: a subtree that is absent is \<open>None\<close>. A subtree that is there
  has the shape in which the agency writes it: its fields are there and hold values of
  the types above. (A dump with \<^verbatim>\<open>Plan: {}\<close>, on which the extractors throw as
  well, is not among the values of these records.)
\<close>

record arango =
  Plan :: "plan option"
  Current :: "current option"
  Supervision :: "supervision option"
  Target :: "target option"

subsection \<open>Exceptions\<close>

text \<open>Sequencing: a thrown exception ends everything that would follow.\<close>

definition andThen :: "error + 'a \<Rightarrow> ('a \<Rightarrow> error + 'b) \<Rightarrow> error + 'b" where
  "andThen r f = (case r of Inl e \<Rightarrow> Inl e | Inr x \<Rightarrow> f x)"

fun foldE :: "('a \<Rightarrow> 's \<Rightarrow> error + 's) \<Rightarrow> 'a list \<Rightarrow> 's \<Rightarrow> error + 's" where
  "foldE f [] s = Inr s"
| "foldE f (x # xs) s = (case f x s of Inl e \<Rightarrow> Inl e | Inr s' \<Rightarrow> foldE f xs s')"

fun mapE :: "('a \<Rightarrow> error + 'b) \<Rightarrow> 'a list \<Rightarrow> error + 'b list" where
  "mapE f [] = Inr []"
| "mapE f (x # xs) =
     (case f x of Inl e \<Rightarrow> Inl e
      | Inr y \<Rightarrow> (case mapE f xs of Inl e \<Rightarrow> Inl e | Inr ys \<Rightarrow> Inr (y # ys)))"

subsection \<open>The findings\<close>

datatype no_plan_database = DatabaseName string | DatabaseCollections "collection obj"

record no_shard_collection =
  nsc_db :: string
  nsc_name :: string
  nsc_col :: collection

record real_leader_missing =
  rlm_db :: string
  rlm_name :: string
  rlm_distributeShardsLike :: string
  rlm_col :: collection

record dead_server =
  dsv_db :: string
  dsv_name :: string
  dsv_shard :: string
  dsv_server :: string
  dsv_servers :: "string list"

record dead_primary =
  dp_database :: string
  dp_primary :: string
  dp_data :: json

text \<open>
  The objects \<^verbatim>\<open>{shard, servers}\<close> of a layout. The source compares two of them
  with \<^verbatim>\<open>!==\<close>, which on objects is identity, so each object carries the address
  it was allocated at.
\<close>

record layout_entry =
  le_ref :: nat
  le_shard :: string
  le_servers :: "string list"

record shard_group =
  sg_plan :: "layout_entry list obj"
  sg_current :: "layout_entry list obj"
  sg_db :: string

record shard_case =
  sc_cid :: string
  sc_shard :: string
  sc_search :: string

record out_of_sync =
  oos_db :: string
  oos_name :: string
  oos_shard :: string
  oos_servers :: "string list"
  oos_current :: "string list"

record broken_edge_index =
  bei_path :: string
  bei_bad :: "index list"
  bei_good :: "index list"

text \<open>
  What \<^verbatim>\<open>helper.extractDatabases\<close> leaves in \<^verbatim>\<open>info\<close> and this file reads. The
  helper is not part of the sources, so its result is a parameter of the run.
\<close>

record database =
  db_name :: string
  db_collections :: "string list"
  db_shards :: "string list"

record zombie =
  z_database :: string
  z_cid :: string

record extracted_databases =
  ed_databases :: "database list"
  ed_zombies :: "zombie list"
  ed_broken :: "zombie list"

record missing_collections =
  mc_database :: string
  mc_missing :: "string list"

record info =
  callbacks :: "json obj list option"
  failedInstances :: "string list"
  primaries :: "health_entry obj"
  databases :: "database list"
  zombies :: "zombie list"
  broken :: "zombie list"
  zombieCoordinators_info :: "string list"
  noPlanDatabases :: "no_plan_database list"
  noShardCollections :: "no_shard_collection list"
  realLeaderMissing :: "real_leader_missing list"
  leaderOnDeadServer :: "dead_server list"
  followerOnDeadServer :: "dead_server list"
  databasesDeadPrimaries :: "dead_primary list"
  shardGroups :: "shard_group obj"
  violatedDistShardLike :: "string list"
  noInsyncFollower :: "shard_case list"
  unplannedLeader :: "shard_case list"
  noInsyncAndDeadLeader :: "shard_case list"
  emptyDatabases :: "database list"
  missingCollections :: "missing_collections list"
  outOfSyncFollowers :: "out_of_sync list"
  correctFailoverCandidates :: "(string list \<times> string list) obj"
  brokenEdgeIndexes :: "broken_edge_index list"

text \<open>\<^verbatim>\<open>const info = {}\<close>: nothing is stored yet.\<close>

definition emptyInfo :: info where
  "emptyInfo = \<lparr>callbacks = None, failedInstances = [], primaries = [], databases = [],
     zombies = [], broken = [], zombieCoordinators_info = [], noPlanDatabases = [],
     noShardCollections = [], realLeaderMissing = [], leaderOnDeadServer = [],
     followerOnDeadServer = [], databasesDeadPrimaries = [], shardGroups = [],
     violatedDistShardLike = [], noInsyncFollower = [], unplannedLeader = [],
     noInsyncAndDeadLeader = [], emptyDatabases = [], missingCollections = [],
     outOfSyncFollowers = [], correctFailoverCandidates = [], brokenEdgeIndexes = []\<rparr>"

subsection \<open>extractFailed\<close>

definition failedInstanceEndpoint :: "health_entry \<Rightarrow> string" where
  "failedInstanceEndpoint server =
     (if startsWith (Endpoint server) ''ssl''
      then replace (Endpoint server) ''ssl:'' ''https:''
      else replace (Endpoint server) ''tcp:'' ''http:'')"

definition failedInstanceEndpoints :: "health_entry obj \<Rightarrow> string list" where
  "failedInstanceEndpoints health =
     map (\<lambda>kv. failedInstanceEndpoint (snd kv))
         (filter (\<lambda>kv. Status (snd kv) = ''FAILED'') health)"

definition extractFailed :: "info \<Rightarrow> arango \<Rightarrow> error + info" where
  "extractFailed info dump =
     (case Supervision dump of
        None \<Rightarrow> Inl TypeError
      | Some sv \<Rightarrow> Inr (info\<lparr>failedInstances := failedInstanceEndpoints (Health sv)\<rparr>))"

subsection \<open>helper.extractPrimaries and helper.extractDatabases\<close>

text \<open>
  Modelled from the spec: \<^verbatim>\<open>helper.extractPrimaries\<close> (helper.js) is not part of the
  sources. The specification of the liveness index says that \<^verbatim>\<open>primaries\<close> holds
  the node identifiers whose entry in \<^verbatim>\<open>Supervision.Health\<close> has Status "GOOD", and
  that a missing Health map gives the empty set.
\<close>

definition extractPrimaries :: "info \<Rightarrow> arango \<Rightarrow> error + info" where
  "extractPrimaries info dump =
     Inr (info\<lparr>primaries :=
       (case Supervision dump of
          None \<Rightarrow> []
        | Some sv \<Rightarrow> filter (\<lambda>kv. Status (snd kv) = ''GOOD'') (Health sv))\<rparr>)"

definition extractDatabases :: "extracted_databases \<Rightarrow> info \<Rightarrow> arango \<Rightarrow> error + info" where
  "extractDatabases ed info dump =
     Inr (info\<lparr>databases := ed_databases ed, zombies := ed_zombies ed, broken := ed_broken ed\<rparr>)"

subsection \<open>zombieCoordinators\<close>

text \<open>The body of the loop over \<^verbatim>\<open>Object.keys(currentCoords)\<close>.\<close>

definition zombieCoordinator :: "json obj \<Rightarrow> string \<Rightarrow> string list \<Rightarrow> error + string list" where
  "zombieCoordinator plannedCoords coord found =
     andThen (hasOwnProperty plannedCoords coord)
       (\<lambda>planned. Inr (if \<not> planned then found @ [coord] else found))"

definition zombieCoordinators :: "info \<Rightarrow> arango \<Rightarrow> error + info" where
  "zombieCoordinators info dump =
     (case Plan dump of
        None \<Rightarrow> Inl TypeError
      | Some p \<Rightarrow>
          (case Current dump of
             None \<Rightarrow> Inl TypeError
           | Some c \<Rightarrow>
               (case Supervision dump of
                  None \<Rightarrow> Inl TypeError
                | Some sv \<Rightarrow>
                    andThen
                      (foldE (zombieCoordinator (Plan_Coordinators p))
                         (map fst (Current_Coordinators c)) [])
                      (\<lambda>found. Inr (info\<lparr>zombieCoordinators_info := found\<rparr>)))))"

subsection \<open>extractCollectionIntegrity\<close>

fun shardEntries :: "shards_field \<Rightarrow> string list obj" where
  "shardEntries ShardsFalsy = []"
| "shardEntries (ShardsOther es) = es"
| "shardEntries (ShardsObject es) = es"

fun shardsFalsy :: "shards_field \<Rightarrow> bool" where
  "shardsFalsy ShardsFalsy = True"
| "shardsFalsy (ShardsOther es) = False"
| "shardsFalsy (ShardsObject es) = False"

text \<open>
  \<^verbatim>\<open>shards.constructor === Object\<close>. The property \<^verbatim>\<open>constructor\<close> is read through
  the data object: a plain object inherits \<^verbatim>\<open>Object\<close>, unless it has an own key
  \<^verbatim>\<open>constructor\<close> (a shard of that name), whose value is then a list of servers.
\<close>

fun shardsPlainObject :: "shards_field \<Rightarrow> bool" where
  "shardsPlainObject ShardsFalsy = False"
| "shardsPlainObject (ShardsOther es) = False"
| "shardsPlainObject (ShardsObject es) = (\<not> ownKey es ''constructor'')"

text \<open>The body of \<^verbatim>\<open>for (let i = 0; i < servers.length; ++i)\<close>.\<close>

definition integrityServer ::
  "string \<Rightarrow> string \<Rightarrow> string \<Rightarrow> string list \<Rightarrow> nat \<Rightarrow> info \<Rightarrow> error + info" where
  "integrityServer db name shard srvs i info =
     andThen (hasOwnProperty (primaries info) (srvs ! i))
       (\<lambda>alive.
          Inr (if \<not> alive
               then (if i = 0
                     then info\<lparr>leaderOnDeadServer := leaderOnDeadServer info @
                            [\<lparr>dsv_db = db, dsv_name = name, dsv_shard = shard,
                              dsv_server = srvs ! i, dsv_servers = srvs\<rparr>]\<rparr>
                     else info\<lparr>followerOnDeadServer := followerOnDeadServer info @
                            [\<lparr>dsv_db = db, dsv_name = name, dsv_shard = shard,
                              dsv_server = srvs ! i, dsv_servers = srvs\<rparr>]\<rparr>)
               else info))"

definition integrityShard ::
  "string \<Rightarrow> string \<Rightarrow> string \<times> string list \<Rightarrow> info \<Rightarrow> error + info" where
  "integrityShard db name sh info =
     foldE (integrityServer db name (fst sh) (snd sh)) [0..<length (snd sh)] info"

definition integrityNoShards :: "collection \<Rightarrow> bool" where
  "integrityNoShards col =
     (shardsFalsy (shards col)
      \<or> (length (shardEntries (shards col)) = 0 \<and> \<not> isSmart col)
      \<or> \<not> shardsPlainObject (shards col))"

text \<open>\<^verbatim>\<open>distributeShardsLike && !collections.hasOwnProperty(distributeShardsLike)\<close>:
  absent and the empty string are falsy, and then the method is not called.\<close>

definition integrityRealLeader ::
  "collection obj \<Rightarrow> string \<Rightarrow> string \<times> collection \<Rightarrow> info \<Rightarrow> error + info" where
  "integrityRealLeader collections db nc info =
     (case distributeShardsLike (snd nc) of
        None \<Rightarrow> Inr info
      | Some d \<Rightarrow>
          if d = [] then Inr info
          else andThen (hasOwnProperty collections d)
                 (\<lambda>present.
                    Inr (if \<not> present
                         then info\<lparr>realLeaderMissing := realLeaderMissing info @
                                [\<lparr>rlm_db = db, rlm_name = fst nc, rlm_distributeShardsLike = d,
                                  rlm_col = snd nc\<rparr>]\<rparr>
                         else info)))"

definition integrityCollection ::
  "collection obj \<Rightarrow> string \<Rightarrow> string \<times> collection \<Rightarrow> info \<Rightarrow> error + info" where
  "integrityCollection collections db nc info =
     (if integrityNoShards (snd nc)
      then Inr (info\<lparr>noShardCollections := noShardCollections info @
                  [\<lparr>nsc_db = db, nsc_name = fst nc, nsc_col = snd nc\<rparr>]\<rparr>)
      else andThen (integrityRealLeader collections db nc info)
             (foldE (integrityShard db (fst nc)) (shardEntries (shards (snd nc)))))"

definition integrityDatabase ::
  "json obj \<Rightarrow> string \<times> collection obj \<Rightarrow> info \<Rightarrow> error + info" where
  "integrityDatabase planDBs dc info =
     andThen (hasOwnProperty planDBs (fst dc))
       (\<lambda>present.
          if \<not> present
          then Inr (info\<lparr>noPlanDatabases := noPlanDatabases info @
                      [DatabaseName (fst dc), DatabaseCollections (snd dc)]\<rparr>)
          else foldE (integrityCollection (snd dc) (fst dc)) (snd dc) info)"

definition extractCollectionIntegrity :: "info \<Rightarrow> arango \<Rightarrow> error + info" where
  "extractCollectionIntegrity info dump =
     (case Plan dump of
        None \<Rightarrow> Inl TypeError
      | Some p \<Rightarrow>
          foldE (integrityDatabase (Plan_Databases p)) (Plan_Collections p)
            (info\<lparr>noPlanDatabases := [], noShardCollections := [],
               realLeaderMissing := [], leaderOnDeadServer := [],
               followerOnDeadServer := []\<rparr>))"

subsection \<open>extractCurrentDatabasesDeadPrimaries\<close>

definition deadPrimary ::
  "health_entry obj \<Rightarrow> string \<Rightarrow> string \<times> json \<Rightarrow> dead_primary list \<Rightarrow>
   error + dead_primary list" where
  "deadPrimary prims name p found =
     andThen (hasOwnProperty prims (fst p))
       (\<lambda>alive. Inr (if \<not> alive
                      then found @ [\<lparr>dp_database = name, dp_primary = fst p, dp_data = snd p\<rparr>]
                      else found))"

definition deadPrimariesOf ::
  "health_entry obj \<Rightarrow> json obj obj \<Rightarrow> error + dead_primary list" where
  "deadPrimariesOf prims dbs = foldE (\<lambda>d. foldE (deadPrimary prims (fst d)) (snd d)) dbs []"

definition extractCurrentDatabasesDeadPrimaries :: "info \<Rightarrow> arango \<Rightarrow> error + info" where
  "extractCurrentDatabasesDeadPrimaries info dump =
     (case Current dump of
        None \<Rightarrow> Inl TypeError
      | Some c \<Rightarrow>
          andThen (deadPrimariesOf (primaries info) (Current_Databases c))
            (\<lambda>found. Inr (info\<lparr>databasesDeadPrimaries := found\<rparr>)))"

subsection \<open>extractDistributionGroups\<close>

text \<open>
  The local variables of the function: the map of groups, the four sets, and the next
  free address. \<^verbatim>\<open>violatedDistShardLike\<close> is a set of strings, so adding a string
  it holds changes nothing; the other three sets hold objects that are created for
  the call of \<^verbatim>\<open>add\<close>, so every \<^verbatim>\<open>add\<close> appends.
\<close>

record dist_state =
  ds_shardGroups :: "shard_group obj"
  ds_violatedDistShardLike :: "string list"
  ds_noInsyncFollower :: "shard_case list"
  ds_unplannedLeader :: "shard_case list"
  ds_noInsyncAndDeadLeader :: "shard_case list"
  ds_heap :: nat

definition setAdd :: "string \<Rightarrow> string list \<Rightarrow> string list" where
  "setAdd x xs = (if x \<in> set xs then xs else xs @ [x])"

text \<open>
  \<^verbatim>\<open>currentCollections[db][cid][shard].servers\<close>; \<open>None\<close> when a lookup on the way
  is \<^verbatim>\<open>undefined\<close>, which throws inside the \<^verbatim>\<open>try\<close>. The three lookups read own
  properties only. A bracket lookup of the source also finds what every object
  inherits (\<^verbatim>\<open>toString\<close>, \<^verbatim>\<open>constructor\<close>, ...): a database, collection or shard of
  such a name that \<^verbatim>\<open>Current\<close> does not have is outside of what this function
  describes.
\<close>

definition currentServers ::
  "current_shard obj obj obj \<Rightarrow> string \<Rightarrow> string \<Rightarrow> string \<Rightarrow> string list option" where
  "currentServers currentCollections db cid shard =
     (case getProp currentCollections db of
        None \<Rightarrow> None
      | Some d \<Rightarrow>
          (case getProp d cid of
             None \<Rightarrow> None
           | Some c \<Rightarrow>
               (case getProp c shard of
                  None \<Rightarrow> None
                | Some s \<Rightarrow> Some (servers s))))"

text \<open>The body of the loop over the shards; the state is
  \<^verbatim>\<open>(myPlan, myCurrent)\<close> and the locals of the function. What
  \<^verbatim>\<open>info.primaries.hasOwnProperty\<close> throws is caught by the \<^verbatim>\<open>catch\<close> of the round,
  after the case was added to \<^verbatim>\<open>noInsyncFollower\<close>.\<close>

definition distShard ::
  "health_entry obj \<Rightarrow> current_shard obj obj obj \<Rightarrow> string \<Rightarrow> string \<Rightarrow> string \<Rightarrow>
   string \<times> string list \<Rightarrow> (layout_entry list \<times> layout_entry list) \<times> dist_state \<Rightarrow>
   (layout_entry list \<times> layout_entry list) \<times> dist_state" where
  "distShard prims currentCollections db cid search sh acc =
     (case currentServers currentCollections db cid (fst sh) of
        None \<Rightarrow> acc
      | Some curServers \<Rightarrow>
          (let st = snd acc;
               c = \<lparr>sc_cid = cid, sc_shard = fst sh, sc_search = search\<rparr>;
               myPlan = fst (fst acc) @
                 [\<lparr>le_ref = ds_heap st, le_shard = fst sh, le_servers = snd sh\<rparr>];
               myCurrent = snd (fst acc) @
                 [\<lparr>le_ref = ds_heap st + 1, le_shard = fst sh, le_servers = curServers\<rparr>];
               st1 = st\<lparr>ds_heap := ds_heap st + 2\<rparr>;
               st2 = (if at curServers 0 \<noteq> at (snd sh) 0
                      then st1\<lparr>ds_unplannedLeader := ds_unplannedLeader st1 @ [c]\<rparr>
                      else st1);
               st3 = (if length (snd sh) > 1 \<and> length curServers \<le> 1
                      then (case hasOwnProperty prims (propertyKey (at curServers 0)) of
                              Inl e \<Rightarrow>
                                st2\<lparr>ds_noInsyncFollower := ds_noInsyncFollower st2 @ [c]\<rparr>
                            | Inr alive \<Rightarrow>
                                if \<not> alive
                                then st2\<lparr>ds_noInsyncFollower := ds_noInsyncFollower st2 @ [c],
                                       ds_noInsyncAndDeadLeader :=
                                         ds_noInsyncAndDeadLeader st2 @ [c]\<rparr>
                                else st2\<lparr>ds_noInsyncFollower := ds_noInsyncFollower st2 @ [c]\<rparr>)
                      else st2)
           in ((myPlan, myCurrent), st3)))"

definition distNoShards :: "collection \<Rightarrow> bool" where
  "distNoShards col =
     (shardsFalsy (shards col) \<or> length (shardEntries (shards col)) = 0
      \<or> \<not> shardsPlainObject (shards col))"

text \<open>\<^verbatim>\<open>comp[i] !== myPlan[i]\<close> for some \<^verbatim>\<open>i < comp.length\<close>: two objects are compared
  by identity, and an object differs from \<^verbatim>\<open>undefined\<close>.\<close>

definition notSameObject :: "layout_entry \<Rightarrow> layout_entry option \<Rightarrow> bool" where
  "notSameObject x y = (case y of None \<Rightarrow> True | Some z \<Rightarrow> le_ref x \<noteq> le_ref z)"

definition planMismatch :: "layout_entry list \<Rightarrow> layout_entry list \<Rightarrow> bool" where
  "planMismatch compPlan myPlan =
     list_ex (\<lambda>i. notSameObject (compPlan ! i) (at myPlan i)) [0..<length compPlan]"

definition shardGreater :: "layout_entry \<Rightarrow> layout_entry \<Rightarrow> bool" where
  "shardGreater l r = (le_shard l > le_shard r)"

definition distCollection ::
  "engine \<Rightarrow> health_entry obj \<Rightarrow> current_shard obj obj obj \<Rightarrow> string \<Rightarrow>
   string \<times> collection \<Rightarrow> dist_state \<Rightarrow> error + dist_state" where
  "distCollection eng prims currentCollections db cc st =
     (if distNoShards (snd cc) then Inr st
      else
        (let cid = fst cc;
             search = (case distributeShardsLike (snd cc) of
                         None \<Rightarrow> cid
                       | Some d \<Rightarrow> if d \<noteq> [] then d else cid);
             isNewEntry = (\<not> mapHas (ds_shardGroups st) search);
             st1 = (if isNewEntry
                    then st\<lparr>ds_shardGroups := mapSet search
                           \<lparr>sg_plan = [], sg_current = [], sg_db = db\<rparr> (ds_shardGroups st)\<rparr>
                    else st)
         in case getProp (ds_shardGroups st1) search of
              None \<Rightarrow> Inl TypeError
            | Some grp \<Rightarrow>
                (let acc = fold (distShard prims currentCollections db cid search)
                             (shardEntries (shards (snd cc))) (([], []), st1);
                     myPlan = arraySort eng shardGreater (fst (fst acc));
                     myCurrent = arraySort eng shardGreater (snd (fst acc));
                     st2 = snd acc
                 in andThen
                      (if \<not> isNewEntry
                       then (case sg_plan grp of
                               [] \<Rightarrow> Inl TypeError
                             | first # others \<Rightarrow>
                                 Inr (if planMismatch (snd first) myPlan
                                      then st2\<lparr>ds_violatedDistShardLike :=
                                             setAdd search (ds_violatedDistShardLike st2)\<rparr>
                                      else st2))
                       else Inr st2)
                      (\<lambda>st3. Inr (st3\<lparr>ds_shardGroups := mapSet search
                         (grp\<lparr>sg_plan := mapSet cid myPlan (sg_plan grp),
                                 sg_current := mapSet cid myCurrent (sg_current grp)\<rparr>)
                         (ds_shardGroups st3)\<rparr>)))))"

definition distDatabase ::
  "engine \<Rightarrow> health_entry obj \<Rightarrow> current_shard obj obj obj \<Rightarrow>
   string \<times> collection obj \<Rightarrow> dist_state \<Rightarrow> error + dist_state" where
  "distDatabase eng prims currentCollections dc st =
     foldE (distCollection eng prims currentCollections (fst dc)) (snd dc) st"

definition distributionGroups ::
  "engine \<Rightarrow> health_entry obj \<Rightarrow> collection obj obj \<Rightarrow> current_shard obj obj obj \<Rightarrow>
   error + dist_state" where
  "distributionGroups eng prims planCollections currentCollections =
     foldE (distDatabase eng prims currentCollections) planCollections
       \<lparr>ds_shardGroups = [], ds_violatedDistShardLike = [], ds_noInsyncFollower = [],
        ds_unplannedLeader = [], ds_noInsyncAndDeadLeader = [], ds_heap = 0\<rparr>"

definition extractDistributionGroups :: "engine \<Rightarrow> info \<Rightarrow> arango \<Rightarrow> error + info" where
  "extractDistributionGroups eng info dump =
     (case Plan dump of
        None \<Rightarrow> Inl TypeError
      | Some p \<Rightarrow>
          (case Current dump of
             None \<Rightarrow> Inl TypeError
           | Some c \<Rightarrow>
               andThen (distributionGroups eng (primaries info) (Plan_Collections p)
                          (Current_Collections c))
                 (\<lambda>st. Inr (info\<lparr>shardGroups := ds_shardGroups st,
                    violatedDistShardLike := ds_violatedDistShardLike st,
                    noInsyncFollower := ds_noInsyncFollower st,
                    unplannedLeader := ds_unplannedLeader st,
                    noInsyncAndDeadLeader := ds_noInsyncAndDeadLeader st\<rparr>))))"

subsection \<open>saveDistributionGroups\<close>

text \<open>\<^verbatim>\<open>myPlan.findIndex(s => s.shard === shard)\<close>, -1 when there is none.\<close>

fun findIndex :: "('a \<Rightarrow> bool) \<Rightarrow> 'a list \<Rightarrow> nat \<Rightarrow> int" where
  "findIndex P [] i = - 1"
| "findIndex P (x # xs) i = (if P x then int i else findIndex P xs (Suc i))"

text \<open>\<^verbatim>\<open>xs[i]\<close> with an index that may be -1.\<close>

definition atInt :: "'a list \<Rightarrow> int \<Rightarrow> 'a option" where
  "atInt xs i = (if i < 0 then None else at xs (nat i))"

text \<open>The first loop: every planned server that is alive becomes a candidate with no
  shard in sync yet.\<close>

definition aliveCandidate ::
  "health_entry obj \<Rightarrow> string \<Rightarrow> string list obj \<Rightarrow> error + string list obj" where
  "aliveCandidate prims s candidates =
     andThen (hasOwnProperty prims s)
       (\<lambda>alive. Inr (if alive then mapSet s [] candidates else candidates))"

definition aliveCandidates :: "health_entry obj \<Rightarrow> string list \<Rightarrow> error + string list obj" where
  "aliveCandidates prims srvs = foldE (aliveCandidate prims) srvs []"

text \<open>The second loop, over \<^verbatim>\<open>group.current\<close>; the state is
  \<^verbatim>\<open>(allShards, candidates)\<close>.\<close>

definition noteInsync ::
  "int \<Rightarrow> string \<times> layout_entry list \<Rightarrow> string list \<times> string list obj \<Rightarrow>
   error + (string list \<times> string list obj)" where
  "noteInsync shardIndex cur acc =
     (case atInt (snd cur) shardIndex of
        None \<Rightarrow> Inl TypeError
      | Some e \<Rightarrow>
          Inr (fst acc @ [le_shard e],
               map (\<lambda>cl. if indexOf (le_servers e) (fst cl) 0 \<noteq> - 1
                          then (fst cl, snd cl @ [le_shard e]) else cl) (snd acc)))"

definition moreInsync :: "string \<times> string list \<Rightarrow> string \<times> string list \<Rightarrow> bool" where
  "moreInsync l r = (length (snd l) > length (snd r))"

text \<open>\<^verbatim>\<open>_.without(allShards, ...list)\<close>.\<close>

definition without :: "string list \<Rightarrow> string list \<Rightarrow> string list" where
  "without xs ys = filter (\<lambda>x. x \<notin> set ys) xs"

text \<open>What is printed for one case: the search key, the position of the shard, and
  for every candidate in the order of \<^verbatim>\<open>sortedCandidates\<close> its name, the shards it
  is in sync for and the shards it misses.\<close>

record failover =
  fo_search :: string
  fo_shardIndex :: int
  fo_candidates :: "(string \<times> string list \<times> string list) list"

definition failoverCandidatesOf ::
  "engine \<Rightarrow> health_entry obj \<Rightarrow> shard_group obj \<Rightarrow> shard_case \<Rightarrow> error + failover" where
  "failoverCandidatesOf eng prims groups c =
     (case getProp groups (sc_search c) of
        None \<Rightarrow> Inl TypeError
      | Some grp \<Rightarrow>
          (case getProp (sg_plan grp) (sc_cid c) of
             None \<Rightarrow> Inl TypeError
           | Some myPlan \<Rightarrow>
               (let shardIndex = findIndex (\<lambda>s. le_shard s = sc_shard c) myPlan 0
                in case atInt myPlan shardIndex of
                     None \<Rightarrow> Inl TypeError
                   | Some mine \<Rightarrow>
                       andThen (aliveCandidates prims (le_servers mine)) (\<lambda>candidates.
                       andThen
                         (foldE (noteInsync shardIndex) (sg_current grp) ([], candidates))
                         (\<lambda>acc. Inr \<lparr>fo_search = sc_search c, fo_shardIndex = shardIndex,
                            fo_candidates =
                              map (\<lambda>cl. (fst cl, snd cl, without (fst acc) (snd cl)))
                                  (arraySort eng moreInsync (snd acc))\<rparr>)))))"

definition saveDistributionGroups :: "engine \<Rightarrow> info \<Rightarrow> error + failover list" where
  "saveDistributionGroups eng info =
     (if length (noInsyncAndDeadLeader info) > 0
      then mapE (failoverCandidatesOf eng (primaries info) (shardGroups info))
                (noInsyncAndDeadLeader info)
      else Inr [])"

subsection \<open>extractEmptyDatabases and extractMissingCollections\<close>

definition extractEmptyDatabases :: "info \<Rightarrow> error + info" where
  "extractEmptyDatabases info =
     Inr (info\<lparr>emptyDatabases :=
       filter (\<lambda>d. length (db_collections d) = 0 \<and> length (db_shards d) = 0)
              (sort_key db_name (databases info))\<rparr>)"

definition systemCollections :: "string list" where
  "systemCollections =
     [''_apps'', ''_appbundles'', ''_aqlfunctions'', ''_graphs'', ''_jobs'', ''_queues'']"

definition missingOf :: "database \<Rightarrow> string list" where
  "missingOf d =
     (let system = filter (\<lambda>n. at n 0 = Some (CHR ''_'')) (db_collections d)
      in filter (\<lambda>n. indexOf system n 0 = - 1) systemCollections)"

definition extractMissingCollections :: "info \<Rightarrow> error + info" where
  "extractMissingCollections info =
     Inr (info\<lparr>missingCollections :=
       map (\<lambda>d. \<lparr>mc_database = db_name d, mc_missing = missingOf d\<rparr>)
           (filter (\<lambda>d. length (missingOf d) > 0) (sort_key db_name (databases info)))\<rparr>)"

subsection \<open>extractOutOfSyncFollowers\<close>

definition compareFollowers :: "string list \<Rightarrow> string list \<Rightarrow> bool" where
  "compareFollowers pl cur =
     (if at pl 0 \<noteq> at cur 0 then False
      else if length pl = 1 then True
      else list_all (\<lambda>i. \<not> indexOf cur (pl ! i) 0 < 1) [1..<length pl])"

definition outOfSyncShard ::
  "current_shard obj obj obj \<Rightarrow> string \<Rightarrow> string \<Rightarrow> string \<times> string list \<Rightarrow> out_of_sync list" where
  "outOfSyncShard currentCollections db name sh =
     (case currentServers currentCollections db name (fst sh) of
        None \<Rightarrow> []
      | Some cur \<Rightarrow>
          if \<not> compareFollowers (snd sh) cur
          then [\<lparr>oos_db = db, oos_name = name, oos_shard = fst sh, oos_servers = snd sh,
                  oos_current = cur\<rparr>]
          else [])"

definition outOfSyncCollection ::
  "current_shard obj obj obj \<Rightarrow> string \<Rightarrow> string \<times> collection \<Rightarrow> out_of_sync list" where
  "outOfSyncCollection currentCollections db nc =
     (if shardsFalsy (shards (snd nc)) \<or> length (shardEntries (shards (snd nc))) = 0
      then []
      else concat (map (outOfSyncShard currentCollections db (fst nc))
                       (shardEntries (shards (snd nc)))))"

definition outOfSyncDatabase ::
  "current_shard obj obj obj \<Rightarrow> string \<times> collection obj \<Rightarrow> out_of_sync list \<Rightarrow>
   error + out_of_sync list" where
  "outOfSyncDatabase currentCollections dc found =
     andThen (hasOwnProperty currentCollections (fst dc))
       (\<lambda>present.
          Inr (if \<not> present then found
               else found @ concat (map (outOfSyncCollection currentCollections (fst dc))
                                        (snd dc))))"

definition extractOutOfSyncFollowers :: "info \<Rightarrow> arango \<Rightarrow> error + info" where
  "extractOutOfSyncFollowers info dump =
     (case Plan dump of
        None \<Rightarrow> Inl TypeError
      | Some p \<Rightarrow>
          (case Current dump of
             None \<Rightarrow> Inl TypeError
           | Some c \<Rightarrow>
               andThen
                 (foldE (outOfSyncDatabase (Current_Collections c)) (Plan_Collections p) [])
                 (\<lambda>found. Inr (info\<lparr>outOfSyncFollowers := found\<rparr>))))"

subsection \<open>extractCleanedFailoverCandidates\<close>

text \<open>\<^verbatim>\<open>_.intersectionWith(xs, ys)\<close> without a comparator: the values of \<open>xs\<close> that
  are in \<open>ys\<close>, each once, in the order of \<open>xs\<close>. \<^verbatim>\<open>_.difference(xs, ys)\<close>: the
  values of \<open>xs\<close> that are not in \<open>ys\<close>.\<close>

fun uniq :: "'a list \<Rightarrow> 'a list" where
  "uniq [] = []"
| "uniq (x # xs) = x # filter (\<lambda>y. y \<noteq> x) (uniq xs)"

definition intersectionWith :: "string list \<Rightarrow> string list \<Rightarrow> string list" where
  "intersectionWith xs ys = uniq (filter (\<lambda>x. x \<in> set ys) xs)"

definition difference :: "string list \<Rightarrow> string list \<Rightarrow> string list" where
  "difference xs ys = filter (\<lambda>x. x \<notin> set ys) xs"

definition cleanedShard ::
  "string list \<Rightarrow> string \<Rightarrow> string \<Rightarrow> string \<times> current_shard \<Rightarrow>
   (string list \<times> string list) obj \<Rightarrow> (string list \<times> string list) obj" where
  "cleanedShard cleanedServers dbname colname sh fixes =
     (let inter = intersectionWith cleanedServers (failoverCandidates (snd sh));
          left = difference (failoverCandidates (snd sh)) inter
      in if length inter > 0
         then mapSet (''arango/Current/Collections/'' @ dbname @ ''/'' @ colname @ ''/''
                        @ fst sh @ ''/failoverCandidates'')
                     (left, failoverCandidates (snd sh)) fixes
         else fixes)"

definition cleanedFailoverCandidates ::
  "string list \<Rightarrow> current_shard obj obj obj \<Rightarrow> (string list \<times> string list) obj" where
  "cleanedFailoverCandidates cleanedServers currentCollections =
     fold (\<lambda>d. fold (\<lambda>c. fold (cleanedShard cleanedServers (fst d) (fst c)) (snd c)) (snd d))
          currentCollections []"

definition extractCleanedFailoverCandidates :: "info \<Rightarrow> arango \<Rightarrow> error + info" where
  "extractCleanedFailoverCandidates info dump =
     (case Current dump of
        None \<Rightarrow> Inl TypeError
      | Some c \<Rightarrow>
          (case Target dump of
             None \<Rightarrow> Inl TypeError
           | Some t \<Rightarrow>
               Inr (info\<lparr>correctFailoverCandidates :=
                 cleanedFailoverCandidates (CleanedServers t) (Current_Collections c)\<rparr>)))"

subsection \<open>extractBrokenEdgeIndexes\<close>

definition edgeFrom :: index where
  "edgeFrom = \<lparr>ix_id = ''1'', ix_type = ''edge'', ix_name = ''edge'',
     ix_fields = [''_from''], ix_unique = False, ix_sparse = False\<rparr>"

definition edgeTo :: index where
  "edgeTo = \<lparr>ix_id = ''2'', ix_type = ''edge'', ix_name = ''edge'',
     ix_fields = [''_to''], ix_unique = False, ix_sparse = False\<rparr>"

text \<open>One round of the loop over \<^verbatim>\<open>Object.entries(indexes)\<close>; the state is
  \<^verbatim>\<open>(failed, newIndexes)\<close>.\<close>

definition edgeIndexStep :: "bool \<times> index list \<Rightarrow> index \<Rightarrow> bool \<times> index list" where
  "edgeIndexStep st ix =
     (let failed = (if ix_type ix = ''edge'' \<and> ix_name ix = ''edge'' \<and> ix_id ix = ''1''
                       \<and> length (ix_fields ix) > 1 then True else fst st);
          newIndexes = (if ix_id ix = ''1'' then snd st @ [edgeFrom, edgeTo]
                        else if ix_id ix \<noteq> ''2'' then snd st @ [ix]
                        else snd st)
      in (failed, newIndexes))"

definition brokenEdgeIndexesOfCollection ::
  "string \<Rightarrow> string \<times> collection \<Rightarrow> broken_edge_index list" where
  "brokenEdgeIndexesOfCollection db nc =
     (case indexes (snd nc) of
        None \<Rightarrow> []
      | Some ixs \<Rightarrow>
          if length ixs = 0 then []
          else (let st = foldl edgeIndexStep (False, []) ixs
                in if fst st
                   then [\<lparr>bei_path = ''/Plan/Collections/'' @ db @ ''/'' @ fst nc @ ''/indexes'',
                           bei_bad = ixs, bei_good = snd st\<rparr>]
                   else []))"

definition brokenEdgeIndexesOf :: "collection obj obj \<Rightarrow> broken_edge_index list" where
  "brokenEdgeIndexesOf planCollections =
     concat (map (\<lambda>dc. concat (map (brokenEdgeIndexesOfCollection (fst dc)) (snd dc)))
                 planCollections)"

definition extractBrokenEdgeIndexes :: "info \<Rightarrow> arango \<Rightarrow> error + info" where
  "extractBrokenEdgeIndexes info dump =
     (case Plan dump of
        None \<Rightarrow> Inl TypeError
      | Some p \<Rightarrow> Inr (info\<lparr>brokenEdgeIndexes := brokenEdgeIndexesOf (Plan_Collections p)\<rparr>))"

subsection \<open>The report\<close>

text \<open>
  Every \<^verbatim>\<open>print...\<close> function prints its table and returns whether it found
  something. \<^verbatim>\<open>printPrimaries\<close> returns nothing, which is falsy; the three tables
  of databases, collections and shards return \<^verbatim>\<open>false\<close>.
\<close>

definition printPrimaries :: "info \<Rightarrow> bool" where
  "printPrimaries info = False"

definition printDatabases :: "info \<Rightarrow> bool" where
  "printDatabases info = False"

definition printCollections :: "info \<Rightarrow> bool" where
  "printCollections info = False"

definition printPrimaryShards :: "info \<Rightarrow> bool" where
  "printPrimaryShards info = False"

definition printZombies :: "info \<Rightarrow> bool" where
  "printZombies info = (0 < length (zombies info))"

definition printZombieCoordinators :: "info \<Rightarrow> bool" where
  "printZombieCoordinators info = (length (zombieCoordinators_info info) > 0)"

definition printCleanedFailoverCandidates :: "info \<Rightarrow> bool" where
  "printCleanedFailoverCandidates info = (0 < length (map fst (correctFailoverCandidates info)))"

definition printBroken :: "info \<Rightarrow> bool" where
  "printBroken info = (0 < length (broken info))"

definition printCollectionIntegrity :: "info \<Rightarrow> bool" where
  "printCollectionIntegrity info =
     (let infected = False;
          infected = (if length (noPlanDatabases info) > 0 then True else infected);
          infected = (if length (noShardCollections info) > 0 then True else infected);
          infected = (if length (realLeaderMissing info) > 0 then True else infected);
          infected = (if length (leaderOnDeadServer info) > 0 then True else infected);
          infected = (if length (followerOnDeadServer info) > 0 then True else infected)
      in infected)"

definition printCurrentDatabasesDeadPrimaries :: "info \<Rightarrow> bool" where
  "printCurrentDatabasesDeadPrimaries info = (0 < length (databasesDeadPrimaries info))"

definition printEmptyDatabases :: "info \<Rightarrow> bool" where
  "printEmptyDatabases info = (0 < length (emptyDatabases info))"

definition printMissingCollections :: "info \<Rightarrow> bool" where
  "printMissingCollections info = (length (missingCollections info) > 0)"

definition printOutOfSyncFollowers :: "info \<Rightarrow> bool" where
  "printOutOfSyncFollowers info = (length (outOfSyncFollowers info) > 0)"

definition printDistributionGroups :: "info \<Rightarrow> bool" where
  "printDistributionGroups info = (length (noInsyncAndDeadLeader info) > 0)"

definition printBrokenEdgeIndexes :: "info \<Rightarrow> bool" where
  "printBrokenEdgeIndexes info = (length (brokenEdgeIndexes info) > 0)"

text \<open>The value of \<^verbatim>\<open>infected\<close> after the last \<^verbatim>\<open>print...\<close> call.\<close>

definition infectedOf :: "info \<Rightarrow> bool" where
  "infectedOf info =
     (let infected = False;
          infected = (printPrimaries info \<or> infected);
          infected = (printDatabases info \<or> infected);
          infected = (printCollections info \<or> infected);
          infected = (printPrimaryShards info \<or> infected);
          infected = (printZombies info \<or> infected);
          infected = (printZombieCoordinators info \<or> infected);
          infected = (printCleanedFailoverCandidates info \<or> infected);
          infected = (printBroken info \<or> infected);
          infected = (printCollectionIntegrity info \<or> infected);
          infected = (printCurrentDatabasesDeadPrimaries info \<or> infected);
          infected = (printEmptyDatabases info \<or> infected);
          infected = (printMissingCollections info \<or> infected);
          infected = (printOutOfSyncFollowers info \<or> infected);
          infected = (printDistributionGroups info \<or> infected);
          infected = (printBrokenEdgeIndexes info \<or> infected)
      in infected)"

subsection \<open>saveZombieCallbacks\<close>

text \<open>A callback is an object whose first key is the URL it was registered for; the
  part of the URL before the path is looked up among the failed endpoints.\<close>

definition zombieCallback :: "string list \<Rightarrow> json obj \<Rightarrow> json obj list \<Rightarrow> error + json obj list" where
  "zombieCallback failed callback zombieCallbacks =
     (case at (map fst callback) 0 of
        None \<Rightarrow> Inl TypeError
      | Some url \<Rightarrow>
          (let fs = indexOf url (CHR ''/'') 0;
               endPos = indexOf url (CHR ''/'') (fs + 2)
           in Inr (if slice0 url endPos \<in> set failed
                   then zombieCallbacks @ [callback] else zombieCallbacks)))"

definition saveZombieCallbacks :: "info \<Rightarrow> error + json obj list" where
  "saveZombieCallbacks info =
     (if length (failedInstances info) > 0
      then (case callbacks info of
              None \<Rightarrow> Inr []
            | Some cbs \<Rightarrow> foldE (zombieCallback (failedInstances info)) cbs [])
      else Inr [])"

subsection \<open>exports.run\<close>

text \<open>The extractors in the order of the source. The first one that throws ends the
  run: there is no \<^verbatim>\<open>try\<close> around any of the calls.\<close>

definition extractAll ::
  "engine \<Rightarrow> extracted_databases \<Rightarrow> json obj list option \<Rightarrow> arango \<Rightarrow> error + info" where
  "extractAll eng ed stores dump =
     andThen (extractFailed (emptyInfo\<lparr>callbacks := stores\<rparr>) dump) (\<lambda>info.
     andThen (extractPrimaries info dump) (\<lambda>info.
     andThen (extractDatabases ed info dump) (\<lambda>info.
     andThen (zombieCoordinators info dump) (\<lambda>info.
     andThen (extractCollectionIntegrity info dump) (\<lambda>info.
     andThen (extractCurrentDatabasesDeadPrimaries info dump) (\<lambda>info.
     andThen (extractDistributionGroups eng info dump) (\<lambda>info.
     andThen (extractEmptyDatabases info) (\<lambda>info.
     andThen (extractMissingCollections info) (\<lambda>info.
     andThen (extractOutOfSyncFollowers info dump) (\<lambda>info.
     andThen (extractCleanedFailoverCandidates info dump) (\<lambda>info.
     extractBrokenEdgeIndexes info dump)))))))))))"

text \<open>What a run leaves behind: the findings, the value of \<^verbatim>\<open>infected\<close>, the
  failover candidates that were printed and the zombie callbacks that were saved. The
  other \<^verbatim>\<open>save...\<close> functions write the findings to files and print a hint; they
  read \<^verbatim>\<open>info\<close> and change nothing in it.\<close>

record run_result =
  rr_info :: info
  rr_infected :: bool
  rr_failover :: "failover list"
  rr_zombieCallbacks :: "json obj list"

definition run ::
  "engine \<Rightarrow> extracted_databases \<Rightarrow> json obj list option \<Rightarrow> arango \<Rightarrow> error + run_result" where
  "run eng ed stores dump =
     andThen (extractAll eng ed stores dump) (\<lambda>info.
     andThen (if infectedOf info then saveDistributionGroups eng info else Inr []) (\<lambda>fo.
     andThen (saveZombieCallbacks info) (\<lambda>zc.
     Inr \<lparr>rr_info = info, rr_infected = infectedOf info, rr_failover = fo,
          rr_zombieCallbacks = zc\<rparr>)))"

subsection \<open>The findings of extractCollectionIntegrity, collection by collection\<close>

text \<open>What one shard, one collection and one database add to the five arrays; the
  section on collection integrity below proves that the loops compute these lists.\<close>

definition deadServerAt :: "string \<Rightarrow> string \<Rightarrow> string \<times> string list \<Rightarrow> nat \<Rightarrow> dead_server" where
  "deadServerAt db name sh i =
     \<lparr>dsv_db = db, dsv_name = name, dsv_shard = fst sh, dsv_server = snd sh ! i, dsv_servers = snd sh\<rparr>"

definition deadOfShard ::
  "bool \<Rightarrow> health_entry obj \<Rightarrow> string \<Rightarrow> string \<Rightarrow> string \<times> string list \<Rightarrow> dead_server list" where
  "deadOfShard leader prims db name sh =
     map (deadServerAt db name sh)
         (filter (\<lambda>i. (i = 0) = leader \<and> \<not> ownKey prims (snd sh ! i)) [0..<length (snd sh)])"

definition deadOfCollection ::
  "bool \<Rightarrow> health_entry obj \<Rightarrow> string \<Rightarrow> string \<times> collection \<Rightarrow> dead_server list" where
  "deadOfCollection leader prims db nc =
     (if integrityNoShards (snd nc) then []
      else concat (map (deadOfShard leader prims db (fst nc)) (shardEntries (shards (snd nc)))))"

definition deadOfDatabase ::
  "bool \<Rightarrow> health_entry obj \<Rightarrow> json obj \<Rightarrow> string \<times> collection obj \<Rightarrow> dead_server list" where
  "deadOfDatabase leader prims planDBs dc =
     (if ownKey planDBs (fst dc)
      then concat (map (deadOfCollection leader prims (fst dc)) (snd dc)) else [])"

definition noShardsOfDatabase :: "json obj \<Rightarrow> string \<times> collection obj \<Rightarrow> no_shard_collection list" where
  "noShardsOfDatabase planDBs dc =
     (if ownKey planDBs (fst dc)
      then map (\<lambda>nc. \<lparr>nsc_db = fst dc, nsc_name = fst nc, nsc_col = snd nc\<rparr>)
               (filter (\<lambda>nc. integrityNoShards (snd nc)) (snd dc))
      else [])"

definition noPlanOfDatabase :: "json obj \<Rightarrow> string \<times> collection obj \<Rightarrow> no_plan_database list" where
  "noPlanOfDatabase planDBs dc =
     (if ownKey planDBs (fst dc) then []
      else [DatabaseName (fst dc), DatabaseCollections (snd dc)])"

definition realLeaderMissingOfCollection ::
  "collection obj \<Rightarrow> string \<Rightarrow> string \<times> collection \<Rightarrow> real_leader_missing list" where
  "realLeaderMissingOfCollection collections db nc =
     (if integrityNoShards (snd nc) then []
      else (case distributeShardsLike (snd nc) of
              None \<Rightarrow> []
            | Some d \<Rightarrow>
                if d \<noteq> [] \<and> \<not> ownKey collections d
                then [\<lparr>rlm_db = db, rlm_name = fst nc, rlm_distributeShardsLike = d,
                        rlm_col = snd nc\<rparr>]
                else []))"

definition realLeaderMissingOfDatabase ::
  "json obj \<Rightarrow> string \<times> collection obj \<Rightarrow> real_leader_missing list" where
  "realLeaderMissingOfDatabase planDBs dc =
     (if ownKey planDBs (fst dc)
      then concat (map (realLeaderMissingOfCollection (snd dc) (fst dc)) (snd dc)) else [])"

subsection \<open>The findings of extractOutOfSyncFollowers, database by database\<close>

definition outOfSyncOfDatabase ::
  "current_shard obj obj obj \<Rightarrow> string \<times> collection obj \<Rightarrow> out_of_sync list" where
  "outOfSyncOfDatabase currentCollections dc =
     (if ownKey currentCollections (fst dc)
      then concat (map (outOfSyncCollection currentCollections (fst dc)) (snd dc)) else [])"

subsection \<open>Example snapshots\<close>

definition goodServer :: health_entry where
  "goodServer = \<lparr>Status = ''GOOD'', Endpoint = ''tcp://10.0.0.2:8529''\<rparr>"

definition failedServer :: health_entry where
  "failedServer = \<lparr>Status = ''FAILED'', Endpoint = ''tcp://10.0.0.1:8529''\<rparr>"

definition plainCollection :: "string list obj \<Rightarrow> string option \<Rightarrow> collection" where
  "plainCollection sh dsl =
     \<lparr>shards = ShardsObject sh, distributeShardsLike = dsl, isSmart = False, indexes = None\<rparr>"

definition observed :: "string list \<Rightarrow> current_shard" where
  "observed srvs = \<lparr>servers = srvs, failoverCandidates = []\<rparr>"

definition snapshot ::
  "json obj \<Rightarrow> collection obj obj \<Rightarrow> current_shard obj obj obj \<Rightarrow> health_entry obj \<Rightarrow> arango" where
  "snapshot dbs planCollections currentCollections health =
     \<lparr>Plan = Some \<lparr>Plan_Databases = dbs, Plan_Collections = planCollections,
                    Plan_Coordinators = []\<rparr>,
      Current = Some \<lparr>Current_Databases = [], Current_Collections = currentCollections,
                       Current_Coordinators = []\<rparr>,
      Supervision = Some \<lparr>Health = health\<rparr>,
      Target = Some \<lparr>CleanedServers = []\<rparr>\<rparr>"

definition deadLeaderPlan :: "collection obj obj" where
  "deadLeaderPlan =
     [(''d'', [(''c1'', plainCollection [(''s1'', [''PRMR-A'', ''PRMR-B'', ''PRMR-C''])] None),
               (''c2'', plainCollection [(''s2'', [''PRMR-A'', ''PRMR-B'', ''PRMR-C''])] (Some ''c1''))])]"

definition deadLeaderCurrent :: "current_shard obj obj obj" where
  "deadLeaderCurrent =
     [(''d'', [(''c1'', [(''s1'', observed [''PRMR-A''])]),
               (''c2'', [(''s2'', observed [''PRMR-A'', ''PRMR-C''])])])]"

definition deadLeaderDump :: arango where
  "deadLeaderDump =
     snapshot [(''d'', ''{}'')] deadLeaderPlan deadLeaderCurrent
       [(''PRMR-A'', failedServer), (''PRMR-B'', goodServer), (''PRMR-C'', goodServer)]"

definition noDatabases :: extracted_databases where
  "noDatabases = \<lparr>ed_databases = [], ed_zombies = [], ed_broken = []\<rparr>"

definition identicalLayoutsDump :: arango where
  "identicalLayoutsDump =
     snapshot [(''d'', ''{}'')]
       [(''d'', [(''c1'', plainCollection [(''s1'', [''PRMR-A''])] None),
                 (''c2'', plainCollection [(''s1'', [''PRMR-A''])] (Some ''c1''))])]
       [(''d'', [(''c1'', [(''s1'', observed [''PRMR-A''])]),
                 (''c2'', [(''s1'', observed [''PRMR-A''])])])]
       [(''PRMR-A'', goodServer)]"

definition duplicateServerDump :: arango where
  "duplicateServerDump =
     snapshot [(''d'', ''{}'')]
       [(''d'', [(''c1'', plainCollection [(''s1'', [''PRMR-A'', ''PRMR-A''])] None)])]
       [(''d'', [(''c1'', [(''s1'', observed [''PRMR-A'', ''PRMR-A''])])])]
       [(''PRMR-A'', goodServer)]"

definition failedOnlyDump :: arango where
  "failedOnlyDump = snapshot [] [] [] [(''PRMR-A'', failedServer)]"

definition pendingCallbacks :: "json obj list" where
  "pendingCallbacks =
     [[(''http://10.0.0.1:8529/_api/agency/cb'', ''true'')],
      [(''http://10.0.0.9:8529/_api/agency/cb'', ''true'')]]"

definition noSupervisionDump :: arango where
  "noSupervisionDump =
     \<lparr>Plan = Some \<lparr>Plan_Databases = [], Plan_Collections = [], Plan_Coordinators = []\<rparr>,
      Current = Some \<lparr>Current_Databases = [], Current_Collections = [],
                       Current_Coordinators = []\<rparr>,
      Supervision = None,
      Target = Some \<lparr>CleanedServers = []\<rparr>\<rparr>"


definition noPlanDump :: arango where
  "noPlanDump =
     \<lparr>Plan = None,
      Current = Some \<lparr>Current_Databases = [], Current_Collections = [],
                       Current_Coordinators = []\<rparr>,
      Supervision = Some \<lparr>Health = []\<rparr>,
      Target = Some \<lparr>CleanedServers = []\<rparr>\<rparr>"

definition noCurrentDump :: arango where
  "noCurrentDump =
     \<lparr>Plan = Some \<lparr>Plan_Databases = [], Plan_Collections = [], Plan_Coordinators = []\<rparr>,
      Current = None,
      Supervision = Some \<lparr>Health = []\<rparr>,
      Target = Some \<lparr>CleanedServers = []\<rparr>\<rparr>"

definition smartCollection :: collection where
  "smartCollection =
     \<lparr>shards = ShardsFalsy, distributeShardsLike = None, isSmart = True, indexes = None\<rparr>"

definition smartDump :: arango where
  "smartDump = snapshot [(''d'', ''{}'')] [(''d'', [(''c'', smartCollection)])] [] []"

definition deletedDatabaseDump :: arango where
  "deletedDatabaseDump =
     snapshot [] [(''db1'', [(''c1'', plainCollection [(''s1'', [''PRMR-A''])] None)])] []
       [(''PRMR-A'', goodServer)]"




subsection \<open>The invariant of extractDistributionGroups\<close>

text \<open>Every group that is in the map has a member, and every case of a dead leader
  without a follower in sync is a case of no follower in sync.\<close>

definition distInvariant :: "dist_state \<Rightarrow> bool" where
  "distInvariant st =
     (list_all (\<lambda>kg. sg_plan (snd kg) \<noteq> []) (ds_shardGroups st)
      \<and> set (ds_noInsyncAndDeadLeader st) \<subseteq> set (ds_noInsyncFollower st))"

subsection \<open>Results of the example snapshots\<close>

definition deletedDatabaseResult :: run_result where
  "deletedDatabaseResult =
     \<lparr>rr_info = emptyInfo\<lparr>primaries := [(''PRMR-A'', goodServer)],
          noPlanDatabases := [DatabaseName ''db1'',
             DatabaseCollections [(''c1'', plainCollection [(''s1'', [''PRMR-A''])] None)]],
          shardGroups := [(''c1'', \<lparr>sg_plan = [(''c1'', [])], sg_current = [(''c1'', [])],
                                    sg_db = ''db1''\<rparr>)]\<rparr>,
      rr_infected = True, rr_failover = [], rr_zombieCallbacks = []\<rparr>"

definition deadLeaderGroups :: "shard_group obj" where
  "deadLeaderGroups =
     [(''c1'',
       \<lparr>sg_plan =
          [(''c1'', [\<lparr>le_ref = 0, le_shard = ''s1'', le_servers = [''PRMR-A'', ''PRMR-B'', ''PRMR-C'']\<rparr>]),
           (''c2'', [\<lparr>le_ref = 2, le_shard = ''s2'', le_servers = [''PRMR-A'', ''PRMR-B'', ''PRMR-C'']\<rparr>])],
        sg_current =
          [(''c1'', [\<lparr>le_ref = 1, le_shard = ''s1'', le_servers = [''PRMR-A'']\<rparr>]),
           (''c2'', [\<lparr>le_ref = 3, le_shard = ''s2'', le_servers = [''PRMR-A'', ''PRMR-C'']\<rparr>])],
        sg_db = ''d''\<rparr>)]"

definition deadLeaderInfo :: info where
  "deadLeaderInfo =
     emptyInfo\<lparr>primaries := [(''PRMR-B'', goodServer), (''PRMR-C'', goodServer)],
       shardGroups := deadLeaderGroups,
       violatedDistShardLike := [''c1''],
       noInsyncFollower := [\<lparr>sc_cid = ''c1'', sc_shard = ''s1'', sc_search = ''c1''\<rparr>],
       noInsyncAndDeadLeader := [\<lparr>sc_cid = ''c1'', sc_shard = ''s1'', sc_search = ''c1''\<rparr>]\<rparr>"

section \<open>Properties\<close>

subsection \<open>Calling hasOwnProperty\<close>

lemma hasOwnProperty_plain:
  "\<not> ownKey ob ''hasOwnProperty'' \<Longrightarrow> hasOwnProperty ob k = Inr (ownKey ob k)"
  by (simp add: hasOwnProperty_def)

lemma hasOwnProperty_shadowed:
  "ownKey ob ''hasOwnProperty'' \<Longrightarrow> hasOwnProperty ob k = Inl TypeError"
  by (simp add: hasOwnProperty_def)

subsection \<open>Collection integrity\<close>

lemma integrityServer_fold:
  "\<not> ownKey (primaries info) ''hasOwnProperty'' \<Longrightarrow>
   foldE (integrityServer db name shard srvs) is info =
     Inr (info\<lparr>leaderOnDeadServer := leaderOnDeadServer info @
             map (deadServerAt db name (shard, srvs))
               (filter (\<lambda>i. (i = 0) = True \<and> \<not> ownKey (primaries info) (srvs ! i)) is),
          followerOnDeadServer := followerOnDeadServer info @
             map (deadServerAt db name (shard, srvs))
               (filter (\<lambda>i. (i = 0) = False \<and> \<not> ownKey (primaries info) (srvs ! i)) is)\<rparr>)"
  by (induction "is" arbitrary: info)
     (simp_all add: integrityServer_def deadServerAt_def hasOwnProperty_plain andThen_def)

lemma integrityShard_eq:
  "\<not> ownKey (primaries info) ''hasOwnProperty'' \<Longrightarrow>
   integrityShard db name sh info =
     Inr (info\<lparr>leaderOnDeadServer := leaderOnDeadServer info @ deadOfShard True (primaries info) db name sh,
          followerOnDeadServer := followerOnDeadServer info @ deadOfShard False (primaries info) db name sh\<rparr>)"
  unfolding integrityShard_def deadOfShard_def by (simp add: integrityServer_fold)

lemma integrityShard_fold:
  "\<not> ownKey (primaries info) ''hasOwnProperty'' \<Longrightarrow>
   foldE (integrityShard db name) shs info =
     Inr (info\<lparr>leaderOnDeadServer := leaderOnDeadServer info @
             concat (map (deadOfShard True (primaries info) db name) shs),
          followerOnDeadServer := followerOnDeadServer info @
             concat (map (deadOfShard False (primaries info) db name) shs)\<rparr>)"
  by (induction shs arbitrary: info) (simp_all add: integrityShard_eq)

lemma integrityRealLeader_eq:
  "\<not> ownKey collections ''hasOwnProperty'' \<Longrightarrow>
   integrityRealLeader collections db nc info =
     Inr (info\<lparr>realLeaderMissing := realLeaderMissing info @
            (case distributeShardsLike (snd nc) of
               None \<Rightarrow> []
             | Some d \<Rightarrow>
                 if d \<noteq> [] \<and> \<not> ownKey collections d
                 then [\<lparr>rlm_db = db, rlm_name = fst nc, rlm_distributeShardsLike = d,
                         rlm_col = snd nc\<rparr>]
                 else [])\<rparr>)"
  by (simp add: integrityRealLeader_def hasOwnProperty_plain andThen_def split: option.split)

lemma integrityCollection_eq:
  "\<not> ownKey (primaries info) ''hasOwnProperty'' \<Longrightarrow> \<not> ownKey collections ''hasOwnProperty'' \<Longrightarrow>
   integrityCollection collections db nc info =
     Inr (info\<lparr>noShardCollections := noShardCollections info @
             (if integrityNoShards (snd nc)
              then [\<lparr>nsc_db = db, nsc_name = fst nc, nsc_col = snd nc\<rparr>] else []),
          realLeaderMissing := realLeaderMissing info @
             realLeaderMissingOfCollection collections db nc,
          leaderOnDeadServer := leaderOnDeadServer info @
             deadOfCollection True (primaries info) db nc,
          followerOnDeadServer := followerOnDeadServer info @
             deadOfCollection False (primaries info) db nc\<rparr>)"
  by (simp add: integrityCollection_def integrityRealLeader_eq integrityShard_fold andThen_def
      realLeaderMissingOfCollection_def deadOfCollection_def)

lemma integrityCollection_fold:
  "\<not> ownKey (primaries info) ''hasOwnProperty'' \<Longrightarrow> \<not> ownKey collections ''hasOwnProperty'' \<Longrightarrow>
   foldE (integrityCollection collections db) ncs info =
     Inr (info\<lparr>noShardCollections := noShardCollections info @
             map (\<lambda>nc. \<lparr>nsc_db = db, nsc_name = fst nc, nsc_col = snd nc\<rparr>)
                 (filter (\<lambda>nc. integrityNoShards (snd nc)) ncs),
          realLeaderMissing := realLeaderMissing info @
             concat (map (realLeaderMissingOfCollection collections db) ncs),
          leaderOnDeadServer := leaderOnDeadServer info @
             concat (map (deadOfCollection True (primaries info) db) ncs),
          followerOnDeadServer := followerOnDeadServer info @
             concat (map (deadOfCollection False (primaries info) db) ncs)\<rparr>)"
  by (induction ncs arbitrary: info) (simp_all add: integrityCollection_eq)

lemma integrityDatabase_eq:
  "\<not> ownKey (primaries info) ''hasOwnProperty'' \<Longrightarrow> \<not> ownKey planDBs ''hasOwnProperty'' \<Longrightarrow>
   \<not> ownKey (snd dc) ''hasOwnProperty'' \<Longrightarrow>
   integrityDatabase planDBs dc info =
     Inr (info\<lparr>noPlanDatabases := noPlanDatabases info @ noPlanOfDatabase planDBs dc,
          noShardCollections := noShardCollections info @ noShardsOfDatabase planDBs dc,
          realLeaderMissing := realLeaderMissing info @ realLeaderMissingOfDatabase planDBs dc,
          leaderOnDeadServer := leaderOnDeadServer info @
             deadOfDatabase True (primaries info) planDBs dc,
          followerOnDeadServer := followerOnDeadServer info @
             deadOfDatabase False (primaries info) planDBs dc\<rparr>)"
  by (simp add: integrityDatabase_def integrityCollection_fold hasOwnProperty_plain andThen_def
      noPlanOfDatabase_def noShardsOfDatabase_def realLeaderMissingOfDatabase_def
      deadOfDatabase_def)

lemma integrityDatabase_fold:
  "\<not> ownKey (primaries info) ''hasOwnProperty'' \<Longrightarrow> \<not> ownKey planDBs ''hasOwnProperty'' \<Longrightarrow>
   \<forall>dc \<in> set dcs. \<not> ownKey (snd dc) ''hasOwnProperty'' \<Longrightarrow>
   foldE (integrityDatabase planDBs) dcs info =
     Inr (info\<lparr>noPlanDatabases := noPlanDatabases info @ concat (map (noPlanOfDatabase planDBs) dcs),
          noShardCollections := noShardCollections info @
             concat (map (noShardsOfDatabase planDBs) dcs),
          realLeaderMissing := realLeaderMissing info @
             concat (map (realLeaderMissingOfDatabase planDBs) dcs),
          leaderOnDeadServer := leaderOnDeadServer info @
             concat (map (deadOfDatabase True (primaries info) planDBs) dcs),
          followerOnDeadServer := followerOnDeadServer info @
             concat (map (deadOfDatabase False (primaries info) planDBs) dcs)\<rparr>)"
  by (induction dcs arbitrary: info) (simp_all add: integrityDatabase_eq)

lemma extractCollectionIntegrity_eq:
  "Plan dump = Some p \<Longrightarrow>
   \<not> ownKey (primaries info) ''hasOwnProperty'' \<Longrightarrow>
   \<not> ownKey (Plan_Databases p) ''hasOwnProperty'' \<Longrightarrow>
   \<forall>dc \<in> set (Plan_Collections p). \<not> ownKey (snd dc) ''hasOwnProperty'' \<Longrightarrow>
   extractCollectionIntegrity info dump =
     Inr (info\<lparr>noPlanDatabases := concat (map (noPlanOfDatabase (Plan_Databases p)) (Plan_Collections p)),
          noShardCollections := concat (map (noShardsOfDatabase (Plan_Databases p)) (Plan_Collections p)),
          realLeaderMissing := concat (map (realLeaderMissingOfDatabase (Plan_Databases p)) (Plan_Collections p)),
          leaderOnDeadServer :=
             concat (map (deadOfDatabase True (primaries info) (Plan_Databases p)) (Plan_Collections p)),
          followerOnDeadServer :=
             concat (map (deadOfDatabase False (primaries info) (Plan_Databases p)) (Plan_Collections p))\<rparr>)"
  by (simp add: extractCollectionIntegrity_def integrityDatabase_fold)

lemma extractCollectionIntegrity_shadowed:
  "Plan dump = Some p \<Longrightarrow> ownKey (Plan_Databases p) ''hasOwnProperty'' \<Longrightarrow>
   Plan_Collections p \<noteq> [] \<Longrightarrow> extractCollectionIntegrity info dump = Inl TypeError"
  by (cases "Plan_Collections p")
     (simp_all add: extractCollectionIntegrity_def integrityDatabase_def hasOwnProperty_shadowed
       andThen_def)











text \<open>
  C6, as amended. Take a planned collection whose database has an entry in
  \<^verbatim>\<open>Plan.Databases\<close>, in a snapshot where neither \<^verbatim>\<open>Plan.Databases\<close>, nor the
  collections of a planned database, nor the liveness table has an entry named
  \<^verbatim>\<open>hasOwnProperty\<close> (the analyzer calls that method through these objects).
  extractCollectionIntegrity returns, and it records the collection in
  \<^verbatim>\<open>noShardCollections\<close> if and only if its \<^verbatim>\<open>shards\<close> value is falsy (absent), or
  is not a plain object, or is a map with a shard named \<^verbatim>\<open>constructor\<close>, or is an
  empty map while the collection is not smart. So a smart collection is exempt only
  where \<^verbatim>\<open>shards\<close> is a plain object.
\<close>

theorem no_shard_collections_iff:
  assumes "Plan dump = Some p"
    and "\<not> ownKey (Plan_Databases p) ''hasOwnProperty''"
    and "\<forall>dc \<in> set (Plan_Collections p). \<not> ownKey (snd dc) ''hasOwnProperty''"
    and "\<not> ownKey (primaries info) ''hasOwnProperty''"
    and "(db, cols) \<in> set (Plan_Collections p)"
    and "ownKey (Plan_Databases p) db" and "(name, col) \<in> set cols"
  shows "\<exists>info'. extractCollectionIntegrity info dump = Inr info' \<and>
     (\<lparr>nsc_db = db, nsc_name = name, nsc_col = col\<rparr> \<in> set (noShardCollections info')
        \<longleftrightarrow> shards col = ShardsFalsy \<or> (\<exists>es. shards col = ShardsOther es)
             \<or> (\<exists>es. shards col = ShardsObject es \<and> ownKey es ''constructor'')
             \<or> (shards col = ShardsObject [] \<and> \<not> isSmart col))"
proof -
  have cond: "integrityNoShards col \<longleftrightarrow> shards col = ShardsFalsy \<or> (\<exists>es. shards col = ShardsOther es)
             \<or> (\<exists>es. shards col = ShardsObject es \<and> ownKey es ''constructor'')
             \<or> (shards col = ShardsObject [] \<and> \<not> isSmart col)"
    by (cases "shards col") (auto simp: integrityNoShards_def ownKey_def)
  have "\<lparr>nsc_db = db, nsc_name = name, nsc_col = col\<rparr>
          \<in> set (concat (map (noShardsOfDatabase (Plan_Databases p)) (Plan_Collections p)))
        \<longleftrightarrow> integrityNoShards col"
    using assms(5,6,7) by (force simp: noShardsOfDatabase_def)
  then show ?thesis
    using cond by (simp add: extractCollectionIntegrity_eq [OF assms(1) assms(4) assms(2) assms(3)])
qed

text \<open>The theorem at a snapshot whose only collection is smart and has no
  \<^verbatim>\<open>shards\<close>.\<close>

theorem no_shard_collections_iff_witness:
  "Plan smartDump = Some \<lparr>Plan_Databases = [(''d'', ''{}'')],
       Plan_Collections = [(''d'', [(''c'', smartCollection)])], Plan_Coordinators = []\<rparr>
   \<and> (\<exists>info'. extractCollectionIntegrity emptyInfo smartDump = Inr info' \<and>
        \<lparr>nsc_db = ''d'', nsc_name = ''c'', nsc_col = smartCollection\<rparr>
          \<in> set (noShardCollections info'))"
proof -
  have h: "Plan smartDump = Some \<lparr>Plan_Databases = [(''d'', ''{}'')],
       Plan_Collections = [(''d'', [(''c'', smartCollection)])], Plan_Coordinators = []\<rparr>"
    by (simp add: smartDump_def snapshot_def)
  show ?thesis
    using h no_shard_collections_iff [OF h, of emptyInfo "''d''" "[(''c'', smartCollection)]" "''c''"
        smartCollection]
    by (simp add: ownKey_def smartCollection_def emptyInfo_def)
qed

text \<open>
  C6 as stated fails: a smart collection without a \<^verbatim>\<open>shards\<close> property is
  recorded in \<^verbatim>\<open>noShardCollections\<close>.
\<close>

theorem smart_collection_flagged:
  "isSmart smartCollection \<and>
   extractCollectionIntegrity emptyInfo smartDump
     = Inr (emptyInfo\<lparr>noShardCollections :=
              [\<lparr>nsc_db = ''d'', nsc_name = ''c'', nsc_col = smartCollection\<rparr>]\<rparr>)"
  by (simp add: extractCollectionIntegrity_def smartDump_def snapshot_def smartCollection_def
      emptyInfo_def integrityDatabase_def integrityCollection_def integrityNoShards_def
      hasOwnProperty_def ownKey_def andThen_def)

text \<open>
  C8. A database that is a key of \<^verbatim>\<open>Plan.Collections\<close> and has no entry in
  \<^verbatim>\<open>Plan.Databases\<close> should add exactly one record to \<^verbatim>\<open>noPlanDatabases\<close>.
  The call \<^verbatim>\<open>push(db, collections)\<close> appends two elements, the name and the
  object of the collections: for the one deleted database of this snapshot the array
  has length two.
\<close>

theorem deleted_database_two_entries:
  "extractCollectionIntegrity emptyInfo deletedDatabaseDump
     = Inr (emptyInfo\<lparr>noPlanDatabases :=
              [DatabaseName ''db1'',
               DatabaseCollections [(''c1'', plainCollection [(''s1'', [''PRMR-A''])] None)]]\<rparr>)
   \<and> length (noPlanDatabases (projr (extractCollectionIntegrity emptyInfo deletedDatabaseDump))) = 2"
  by (simp add: extractCollectionIntegrity_def deletedDatabaseDump_def snapshot_def
      emptyInfo_def integrityDatabase_def hasOwnProperty_def ownKey_def andThen_def)

subsection \<open>Broken edge indexes\<close>








subsection \<open>Dead servers\<close>


lemma deadLeaderDump_Plan:
  "Plan deadLeaderDump = Some \<lparr>Plan_Databases = [(''d'', ''{}'')],
      Plan_Collections = deadLeaderPlan, Plan_Coordinators = []\<rparr>"
  by (simp add: deadLeaderDump_def snapshot_def)




subsection \<open>Distribution groups\<close>

lemma foldE_total:
  assumes "\<And>x s. x \<in> set xs \<Longrightarrow> P s \<Longrightarrow> \<exists>s'. f x s = Inr s' \<and> P s'" and "P s"
  shows "\<exists>s'. foldE f xs s = Inr s' \<and> P s'"
  using assms
proof (induction xs arbitrary: s)
  case Nil
  then show ?case by simp
next
  case (Cons x xs)
  from Cons.prems obtain s1 where s1: "f x s = Inr s1" "P s1"
    by (meson list.set_intros(1))
  have "\<exists>s'. foldE f xs s1 = Inr s' \<and> P s'"
    using Cons.prems(1) s1(2) by (intro Cons.IH) auto
  then show ?case using s1(1) by simp
qed

lemma distShard_frame:
  "ds_shardGroups (snd (distShard prims cc db cid search sh acc)) = ds_shardGroups (snd acc)
   \<and> ds_violatedDistShardLike (snd (distShard prims cc db cid search sh acc))
       = ds_violatedDistShardLike (snd acc)
   \<and> (set (ds_noInsyncAndDeadLeader (snd acc)) \<subseteq> set (ds_noInsyncFollower (snd acc)) \<longrightarrow>
        set (ds_noInsyncAndDeadLeader (snd (distShard prims cc db cid search sh acc)))
          \<subseteq> set (ds_noInsyncFollower (snd (distShard prims cc db cid search sh acc))))"
  by (auto simp: distShard_def Let_def split: option.splits sum.splits)

lemma distShard_fold_frame:
  "ds_shardGroups (snd (fold (distShard prims cc db cid search) shs acc)) = ds_shardGroups (snd acc)
   \<and> ds_violatedDistShardLike (snd (fold (distShard prims cc db cid search) shs acc))
       = ds_violatedDistShardLike (snd acc)
   \<and> (set (ds_noInsyncAndDeadLeader (snd acc)) \<subseteq> set (ds_noInsyncFollower (snd acc)) \<longrightarrow>
        set (ds_noInsyncAndDeadLeader (snd (fold (distShard prims cc db cid search) shs acc)))
          \<subseteq> set (ds_noInsyncFollower (snd (fold (distShard prims cc db cid search) shs acc))))"
proof (induction shs arbitrary: acc)
  case Nil
  show ?case by simp
next
  case (Cons sh shs)
  show ?case
    using Cons.IH [of "distShard prims cc db cid search sh acc"]
      distShard_frame [of prims cc db cid search sh acc]
    by simp
qed

lemma mapSet_all:
  "list_all P m \<Longrightarrow> P (k, v) \<Longrightarrow> list_all P (mapSet k v m)"
  by (induction m) (auto simp: mapSet_def)

lemma mapSet_twice:
  "mapSet k v (mapSet k w m) = mapSet k v m"
  by (induction m) (auto simp: mapSet_def)

lemma getProp_mapSet: "getProp (mapSet k v m) k = Some v"
  by (simp add: getProp_def mapSet_def update_conv')

lemma getProp_has:
  "mapHas m k \<Longrightarrow> \<exists>v. getProp m k = Some v \<and> (k, v) \<in> set m"
  unfolding mapHas_def getProp_def
  by (metis map_of_SomeD map_of_eq_None_iff not_None_eq set_map)

lemma mapSet_nonempty: "mapSet k v m \<noteq> []"
  by (simp add: mapSet_def)

lemma distCollection_total:
  assumes "distInvariant st"
  shows "\<exists>st'. distCollection eng prims cc db c st = Inr st' \<and> distInvariant st'"
proof (cases "distNoShards (snd c)")
  case True
  then show ?thesis using assms by (simp add: distCollection_def)
next
  case False
  define search where "search = (case distributeShardsLike (snd c) of
                         None \<Rightarrow> fst c | Some d \<Rightarrow> if d \<noteq> [] then d else fst c)"
  define st1 where "st1 = (if \<not> mapHas (ds_shardGroups st) search
                    then st\<lparr>ds_shardGroups := mapSet search
                           \<lparr>sg_plan = [], sg_current = [], sg_db = db\<rparr> (ds_shardGroups st)\<rparr>
                    else st)"
  define acc where "acc = fold (distShard prims cc db (fst c) search)
                             (shardEntries (shards (snd c))) (([], []), st1)"
  define myPlan where "myPlan = arraySort eng shardGreater (fst (fst acc))"
  define myCurrent where "myCurrent = arraySort eng shardGreater (snd (fst acc))"
  have unfold: "distCollection eng prims cc db c st =
     (case getProp (ds_shardGroups st1) search of
        None \<Rightarrow> Inl TypeError
      | Some grp \<Rightarrow>
          andThen
            (if mapHas (ds_shardGroups st) search
             then (case sg_plan grp of
                     [] \<Rightarrow> Inl TypeError
                   | first # others \<Rightarrow>
                       Inr (if planMismatch (snd first) myPlan
                            then (snd acc)\<lparr>ds_violatedDistShardLike :=
                                   setAdd search (ds_violatedDistShardLike (snd acc))\<rparr>
                            else snd acc))
             else Inr (snd acc))
            (\<lambda>st3. Inr (st3\<lparr>ds_shardGroups := mapSet search
               (grp\<lparr>sg_plan := mapSet (fst c) myPlan (sg_plan grp),
                     sg_current := mapSet (fst c) myCurrent (sg_current grp)\<rparr>)
               (ds_shardGroups st3)\<rparr>)))"
    unfolding distCollection_def Let_def search_def st1_def acc_def myPlan_def myCurrent_def
    using False by (simp cong: option.case_cong)
  have sub1: "set (ds_noInsyncAndDeadLeader st1) \<subseteq> set (ds_noInsyncFollower st1)"
    using assms by (simp add: st1_def distInvariant_def)
  have frame: "ds_shardGroups (snd acc) = ds_shardGroups st1"
    and sub2: "set (ds_noInsyncAndDeadLeader (snd acc)) \<subseteq> set (ds_noInsyncFollower (snd acc))"
    using distShard_fold_frame [of prims cc db "fst c" search "shardEntries (shards (snd c))"
        "(([], []), st1)"] sub1
    by (simp_all add: acc_def)
  have all: "list_all (\<lambda>kg. sg_plan (snd kg) \<noteq> []) (ds_shardGroups st)"
    using assms by (simp add: distInvariant_def)
  show ?thesis
  proof (cases "mapHas (ds_shardGroups st) search")
    case new: False
    have g: "getProp (ds_shardGroups st1) search
               = Some \<lparr>sg_plan = [], sg_current = [], sg_db = db\<rparr>"
      using new by (simp add: st1_def getProp_mapSet)
    have groups: "ds_shardGroups (snd acc) = mapSet search
                    \<lparr>sg_plan = [], sg_current = [], sg_db = db\<rparr> (ds_shardGroups st)"
      using new frame by (simp add: st1_def)
    have res: "distCollection eng prims cc db c st
      = Inr ((snd acc)\<lparr>ds_shardGroups := mapSet search
           \<lparr>sg_plan = mapSet (fst c) myPlan [], sg_current = mapSet (fst c) myCurrent [],
             sg_db = db\<rparr> (ds_shardGroups st)\<rparr>)"
      using new g by (simp add: unfold andThen_def groups mapSet_twice)
    have "list_all (\<lambda>kg. sg_plan (snd kg) \<noteq> [])
            (mapSet search \<lparr>sg_plan = mapSet (fst c) myPlan [],
               sg_current = mapSet (fst c) myCurrent [], sg_db = db\<rparr> (ds_shardGroups st))"
      using all by (rule mapSet_all) (simp add: mapSet_nonempty)
    then show ?thesis using res sub2 by (simp add: distInvariant_def)
  next
    case old: True
    then obtain grp where grp: "getProp (ds_shardGroups st) search = Some grp"
      and mem: "(search, grp) \<in> set (ds_shardGroups st)"
      using getProp_has by blast
    have st1: "st1 = st" using old by (simp add: st1_def)
    have ne: "sg_plan grp \<noteq> []"
      using all mem by (auto simp: list_all_iff)
    then obtain first others where plan: "sg_plan grp = first # others"
      by (cases "sg_plan grp") auto
    define st3 where "st3 = (if planMismatch (snd first) myPlan
                               then (snd acc)\<lparr>ds_violatedDistShardLike :=
                                      setAdd search (ds_violatedDistShardLike (snd acc))\<rparr>
                               else snd acc)"
    have res: "distCollection eng prims cc db c st
      = Inr (st3\<lparr>ds_shardGroups := mapSet search
           (grp\<lparr>sg_plan := mapSet (fst c) myPlan (sg_plan grp),
                 sg_current := mapSet (fst c) myCurrent (sg_current grp)\<rparr>) (ds_shardGroups st3)\<rparr>)"
      using old grp plan by (simp add: unfold andThen_def st1 st3_def)
    have g3: "ds_shardGroups st3 = ds_shardGroups st"
      using frame st1 by (simp add: st3_def)
    have sub3: "set (ds_noInsyncAndDeadLeader st3) \<subseteq> set (ds_noInsyncFollower st3)"
      using sub2 by (simp add: st3_def)
    have "list_all (\<lambda>kg. sg_plan (snd kg) \<noteq> [])
            (mapSet search (grp\<lparr>sg_plan := mapSet (fst c) myPlan (sg_plan grp),
                 sg_current := mapSet (fst c) myCurrent (sg_current grp)\<rparr>) (ds_shardGroups st))"
      using all by (rule mapSet_all) (simp add: mapSet_nonempty)
    then show ?thesis using res sub3 g3 by (simp add: distInvariant_def)
  qed
qed

lemma distributionGroups_total:
  "\<exists>st. distributionGroups eng prims planCollections currentCollections = Inr st \<and> distInvariant st"
  unfolding distributionGroups_def
proof (rule foldE_total)
  show "distInvariant \<lparr>ds_shardGroups = [], ds_violatedDistShardLike = [],
          ds_noInsyncFollower = [], ds_unplannedLeader = [], ds_noInsyncAndDeadLeader = [],
          ds_heap = 0\<rparr>"
    by (simp add: distInvariant_def)
next
  fix dc st
  assume "distInvariant st"
  then show "\<exists>s'. distDatabase eng prims currentCollections dc st = Inr s' \<and> distInvariant s'"
    unfolding distDatabase_def
    by (intro foldE_total) (auto intro: distCollection_total)
qed

text \<open>
  C10. Whenever \<^verbatim>\<open>Plan\<close> and \<^verbatim>\<open>Current\<close> are there, extractDistributionGroups
  returns, whatever the sort of the engine does, and every record \<^verbatim>\<open>{cid, shard, search}\<close> of \<^verbatim>\<open>noInsyncAndDeadLeader\<close>
  is, with the same field values, a record of \<^verbatim>\<open>noInsyncFollower\<close>.
\<close>

theorem dead_leader_cases_are_no_insync_cases:
  assumes "Plan dump = Some p" and "Current dump = Some c"
  shows "\<exists>info'. extractDistributionGroups eng info dump = Inr info'
           \<and> set (noInsyncAndDeadLeader info') \<subseteq> set (noInsyncFollower info')"
proof -
  obtain st where "distributionGroups eng (primaries info) (Plan_Collections p)
                     (Current_Collections c) = Inr st" and "distInvariant st"
    using distributionGroups_total by blast
  then show ?thesis
    using assms by (simp add: extractDistributionGroups_def andThen_def distInvariant_def)
qed

subsection \<open>Followers out of sync\<close>

lemma firstIndex_absent: "x \<notin> set xs \<Longrightarrow> firstIndex x xs n = - 1"
  by (induction xs arbitrary: n) auto

lemma firstIndex_present: "x \<in> set xs \<Longrightarrow> int n \<le> firstIndex x xs n"
proof (induction xs arbitrary: n)
  case Nil
  then show ?case by simp
next
  case (Cons y ys)
  show ?case
  proof (cases "y = x")
    case True
    then show ?thesis by simp
  next
    case False
    then have "x \<in> set ys" using Cons.prems by simp
    then have "int (Suc n) \<le> firstIndex x ys (Suc n)" by (rule Cons.IH)
    then show ?thesis using False by simp
  qed
qed

lemma indexOf_before_one:
  "indexOf cur x 0 < 1 \<longleftrightarrow> x \<notin> set (tl cur) \<or> Some x = at cur 0"
proof (cases cur)
  case Nil
  then show ?thesis by (simp add: indexOf_def at_def)
next
  case (Cons y ys)
  show ?thesis
  proof (cases "y = x")
    case True
    then show ?thesis using Cons by (simp add: indexOf_def at_def)
  next
    case False
    show ?thesis
    proof (cases "x \<in> set ys")
      case True
      then have "int (Suc 0) \<le> firstIndex x ys (Suc 0)" by (rule firstIndex_present)
      then show ?thesis using Cons False True by (simp add: indexOf_def at_def)
    next
      case notin: False
      then show ?thesis using Cons False by (simp add: indexOf_def at_def firstIndex_absent)
    qed
  qed
qed

lemma compareFollowers_iff:
  "\<not> compareFollowers pl cur \<longleftrightarrow>
     at cur 0 \<noteq> at pl 0
     \<or> (1 < length pl \<and> (\<exists>f \<in> set (tl pl). f \<notin> set (tl cur) \<or> Some f = at cur 0))"
proof -
  have "(\<exists>i \<in> set [1..<length pl]. indexOf cur (pl ! i) 0 < 1)
          \<longleftrightarrow> (\<exists>f \<in> set (tl pl). f \<notin> set (tl cur) \<or> Some f = at cur 0)"
  proof (cases pl)
    case Nil
    then show ?thesis by simp
  next
    case (Cons l fs)
    have "(\<exists>i \<in> set [1..<length pl]. indexOf cur (pl ! i) 0 < 1)
            \<longleftrightarrow> (\<exists>j < length fs. indexOf cur (fs ! j) 0 < 1)"
    proof
      assume "\<exists>i \<in> set [1..<length pl]. indexOf cur (pl ! i) 0 < 1"
      then obtain i where "1 \<le> i" "i < length pl" "indexOf cur (pl ! i) 0 < 1" by auto
      then have "i - 1 < length fs \<and> indexOf cur (fs ! (i - 1)) 0 < 1"
        using Cons by (cases i) auto
      then show "\<exists>j < length fs. indexOf cur (fs ! j) 0 < 1" by blast
    next
      assume "\<exists>j < length fs. indexOf cur (fs ! j) 0 < 1"
      then obtain j where "j < length fs" "indexOf cur (fs ! j) 0 < 1" by blast
      then have "Suc j \<in> set [1..<length pl] \<and> indexOf cur (pl ! Suc j) 0 < 1"
        using Cons by auto
      then show "\<exists>i \<in> set [1..<length pl]. indexOf cur (pl ! i) 0 < 1" by blast
    qed
    also have "\<dots> \<longleftrightarrow> (\<exists>f \<in> set fs. indexOf cur f 0 < 1)"
      by (metis in_set_conv_nth)
    finally show ?thesis using Cons by (simp add: indexOf_before_one)
  qed
  moreover have "length pl \<noteq> 1 \<and> (\<exists>i \<in> set [1..<length pl]. P i)
                   \<longleftrightarrow> 1 < length pl \<and> (\<exists>i \<in> set [1..<length pl]. P i)" for P
    by auto
  ultimately show ?thesis
    unfolding compareFollowers_def list_all_iff by (auto simp del: set_upt)
qed

lemma outOfSyncDatabase_fold:
  "\<not> ownKey cc ''hasOwnProperty'' \<Longrightarrow>
   foldE (outOfSyncDatabase cc) dcs found
     = Inr (found @ concat (map (outOfSyncOfDatabase cc) dcs))"
  by (induction dcs arbitrary: found)
     (simp_all add: outOfSyncDatabase_def outOfSyncOfDatabase_def hasOwnProperty_plain
       andThen_def)

lemma currentServers_has:
  "currentServers cc db name shard = Some cur \<Longrightarrow> ownKey cc db"
  by (auto simp: currentServers_def getProp_def ownKey_def
      split: option.splits dest!: map_of_SomeD intro: rev_image_eqI)

lemma outOfSync_member:
  assumes "(db, cols) \<in> set planCollections" and "(name, col) \<in> set cols"
    and "(shard, pl) \<in> set (shardEntries (shards col))"
    and "currentServers cc db name shard = Some cur"
  shows "\<lparr>oos_db = db, oos_name = name, oos_shard = shard, oos_servers = pl, oos_current = cur\<rparr>
           \<in> set (concat (map (outOfSyncOfDatabase cc) planCollections))
         \<longleftrightarrow> \<not> compareFollowers pl cur"
proof
  assume "\<lparr>oos_db = db, oos_name = name, oos_shard = shard, oos_servers = pl, oos_current = cur\<rparr>
           \<in> set (concat (map (outOfSyncOfDatabase cc) planCollections))"
  then show "\<not> compareFollowers pl cur"
    by (auto simp: outOfSyncOfDatabase_def outOfSyncCollection_def outOfSyncShard_def
        split: if_splits option.splits)
next
  assume flagged: "\<not> compareFollowers pl cur"
  have ne: "\<not> (shardsFalsy (shards col) \<or> length (shardEntries (shards col)) = 0)"
    using assms(3) by (cases "shards col") auto
  have "\<lparr>oos_db = db, oos_name = name, oos_shard = shard, oos_servers = pl, oos_current = cur\<rparr>
          \<in> set (outOfSyncShard cc db name (shard, pl))"
    using flagged assms(4) by (simp add: outOfSyncShard_def)
  then have "\<lparr>oos_db = db, oos_name = name, oos_shard = shard, oos_servers = pl, oos_current = cur\<rparr>
          \<in> set (outOfSyncCollection cc db (name, col))"
    using ne assms(3) by (auto simp: outOfSyncCollection_def)
  then have "\<lparr>oos_db = db, oos_name = name, oos_shard = shard, oos_servers = pl, oos_current = cur\<rparr>
          \<in> set (outOfSyncOfDatabase cc (db, cols))"
    using assms(2) currentServers_has [OF assms(4)] by (auto simp: outOfSyncOfDatabase_def)
  then show "\<lparr>oos_db = db, oos_name = name, oos_shard = shard, oos_servers = pl, oos_current = cur\<rparr>
           \<in> set (concat (map (outOfSyncOfDatabase cc) planCollections))"
    using assms(1) by auto
qed

text \<open>
  C5, as amended. Take a planned shard that has an entry in \<^verbatim>\<open>Current\<close>, in a
  snapshot where \<^verbatim>\<open>Current.Collections\<close> has no database named \<^verbatim>\<open>hasOwnProperty\<close>
  (the analyzer calls that method through the object).
  extractOutOfSyncFollowers returns, and it records the shard if and only if the
  observed leader differs from the planned leader, or the planned list has more than
  one entry and some planned follower is missing from the positions 1 and later of the
  observed list or is the observed leader itself (its first occurrence in the observed
  list is not at a position 1 or later). Where the observed list has no duplicates this
  is the condition of the claim. A shard whose planned list has exactly one entry is not
  recorded once its leader matches.
\<close>

theorem out_of_sync_iff:
  assumes "Plan dump = Some p" and "Current dump = Some c"
    and "\<not> ownKey (Current_Collections c) ''hasOwnProperty''"
    and "(db, cols) \<in> set (Plan_Collections p)" and "(name, col) \<in> set cols"
    and "(shard, pl) \<in> set (shardEntries (shards col))"
    and "currentServers (Current_Collections c) db name shard = Some cur"
  shows "\<exists>info'. extractOutOfSyncFollowers info dump = Inr info' \<and>
     (\<lparr>oos_db = db, oos_name = name, oos_shard = shard, oos_servers = pl, oos_current = cur\<rparr>
        \<in> set (outOfSyncFollowers info')
      \<longleftrightarrow> at cur 0 \<noteq> at pl 0
           \<or> (1 < length pl \<and> (\<exists>f \<in> set (tl pl). f \<notin> set (tl cur) \<or> Some f = at cur 0))) \<and>
     (distinct cur \<longrightarrow>
       (\<lparr>oos_db = db, oos_name = name, oos_shard = shard, oos_servers = pl, oos_current = cur\<rparr>
          \<in> set (outOfSyncFollowers info')
        \<longleftrightarrow> at cur 0 \<noteq> at pl 0
             \<or> (1 < length pl \<and> (\<exists>f \<in> set (tl pl). f \<notin> set (tl cur))))) \<and>
     (length pl = 1 \<and> at cur 0 = at pl 0 \<longrightarrow>
        \<lparr>oos_db = db, oos_name = name, oos_shard = shard, oos_servers = pl, oos_current = cur\<rparr>
          \<notin> set (outOfSyncFollowers info'))"
proof -
  let ?r = "\<lparr>oos_db = db, oos_name = name, oos_shard = shard, oos_servers = pl, oos_current = cur\<rparr>"
  define info' where "info' = info\<lparr>outOfSyncFollowers :=
                 concat (map (outOfSyncOfDatabase (Current_Collections c)) (Plan_Collections p))\<rparr>"
  have run: "extractOutOfSyncFollowers info dump = Inr info'"
    using assms(1,2,3)
    by (simp add: extractOutOfSyncFollowers_def info'_def outOfSyncDatabase_fold andThen_def)
  have "?r \<in> set (outOfSyncFollowers info') \<longleftrightarrow> \<not> compareFollowers pl cur"
    using outOfSync_member [OF assms(4,5,6,7)] by (simp add: info'_def)
  then have exact: "?r \<in> set (outOfSyncFollowers info')
      \<longleftrightarrow> at cur 0 \<noteq> at pl 0
           \<or> (1 < length pl \<and> (\<exists>f \<in> set (tl pl). f \<notin> set (tl cur) \<or> Some f = at cur 0))"
    by (simp only: compareFollowers_iff)
  have dist: "?r \<in> set (outOfSyncFollowers info')
        \<longleftrightarrow> at cur 0 \<noteq> at pl 0
             \<or> (1 < length pl \<and> (\<exists>f \<in> set (tl pl). f \<notin> set (tl cur)))"
    if d: "distinct cur"
  proof -
    have "f \<notin> set (tl cur)" if "Some f = at cur 0" for f
      using that d by (cases cur) (auto simp: at_def)
    then show ?thesis unfolding exact by blast
  qed
  have single: "?r \<notin> set (outOfSyncFollowers info')" if "length pl = 1 \<and> at cur 0 = at pl 0"
    using that unfolding exact by simp
  show ?thesis using run exact dist single by blast
qed

subsection \<open>Evaluation of the example snapshots\<close>

lemmas extract_defs =
  extractAll_def andThen_def snapshot_def emptyInfo_def
  extractFailed_def failedInstanceEndpoints_def failedInstanceEndpoint_def startsWith_def
  extractPrimaries_def extractDatabases_def zombieCoordinators_def zombieCoordinator_def
  extractCollectionIntegrity_def integrityDatabase_def integrityCollection_def
  integrityRealLeader_def integrityShard_def integrityServer_def integrityNoShards_def
  extractCurrentDatabasesDeadPrimaries_def deadPrimariesOf_def deadPrimary_def
  extractDistributionGroups_def distributionGroups_def distDatabase_def distCollection_def
  distShard_def distNoShards_def currentServers_def planMismatch_def notSameObject_def
  setAdd_def arraySort_def runOrder_def legacyOrder_def insertionSort_def shardGreater_def
  mapSet_def mapHas_def getProp_def hasOwnProperty_def ownKey_def
  at_def propertyKey_def
  extractEmptyDatabases_def extractMissingCollections_def
  extractOutOfSyncFollowers_def outOfSyncDatabase_def outOfSyncCollection_def
  outOfSyncShard_def compareFollowers_def indexOf_def
  extractCleanedFailoverCandidates_def cleanedFailoverCandidates_def cleanedShard_def
  intersectionWith_def difference_def
  extractBrokenEdgeIndexes_def brokenEdgeIndexesOf_def brokenEdgeIndexesOfCollection_def
  plainCollection_def observed_def goodServer_def failedServer_def Let_def

lemmas report_defs =
  run_def infectedOf_def printPrimaries_def printDatabases_def printCollections_def
  printPrimaryShards_def printZombies_def printZombieCoordinators_def
  printCleanedFailoverCandidates_def printBroken_def printCollectionIntegrity_def
  printCurrentDatabasesDeadPrimaries_def printEmptyDatabases_def printMissingCollections_def
  printOutOfSyncFollowers_def printDistributionGroups_def printBrokenEdgeIndexes_def
  saveDistributionGroups_def saveZombieCallbacks_def zombieCallback_def slice0_def

lemma arraySort_empty: "arraySort eng cmp [] = []"
  by (simp add: arraySort_def)

lemma deletedDatabase_run:
  "run eng noDatabases None deletedDatabaseDump = Inr deletedDatabaseResult"
  by (simp add: deletedDatabaseDump_def deletedDatabaseResult_def noDatabases_def
      arraySort_empty extractAll_def andThen_def snapshot_def emptyInfo_def
      extractFailed_def failedInstanceEndpoints_def failedInstanceEndpoint_def startsWith_def
      extractPrimaries_def extractDatabases_def zombieCoordinators_def zombieCoordinator_def
      extractCollectionIntegrity_def integrityDatabase_def integrityCollection_def
      integrityRealLeader_def integrityShard_def integrityServer_def integrityNoShards_def
      extractCurrentDatabasesDeadPrimaries_def deadPrimariesOf_def deadPrimary_def
      extractDistributionGroups_def distributionGroups_def distDatabase_def distCollection_def
      distShard_def distNoShards_def currentServers_def planMismatch_def notSameObject_def
      setAdd_def shardGreater_def mapSet_def mapHas_def getProp_def hasOwnProperty_def
      ownKey_def at_def propertyKey_def extractEmptyDatabases_def
      extractMissingCollections_def extractOutOfSyncFollowers_def outOfSyncDatabase_def
      outOfSyncCollection_def outOfSyncShard_def compareFollowers_def indexOf_def
      extractCleanedFailoverCandidates_def cleanedFailoverCandidates_def cleanedShard_def
      intersectionWith_def difference_def extractBrokenEdgeIndexes_def
      brokenEdgeIndexesOf_def brokenEdgeIndexesOfCollection_def plainCollection_def
      observed_def goodServer_def failedServer_def Let_def report_defs)

lemma failedOnly_run:
  "run eng noDatabases (Some pendingCallbacks) failedOnlyDump
     = Inr \<lparr>rr_info = emptyInfo\<lparr>callbacks := Some pendingCallbacks,
                                failedInstances := [''http://10.0.0.1:8529'']\<rparr>,
            rr_infected = False, rr_failover = [],
            rr_zombieCallbacks = [[(''http://10.0.0.1:8529/_api/agency/cb'', ''true'')]]\<rparr>"
  by (simp add: failedOnlyDump_def pendingCallbacks_def noDatabases_def extract_defs
      report_defs)

subsection \<open>The exit signal\<close>

text \<open>
  C4, as amended. When a run returns, \<^verbatim>\<open>infected\<close> is true if and only if one of the
  finding collections that the report prints is not empty: zombies, zombie
  coordinators, cleaned failover candidates, broken collections, the five collections
  of the integrity analyzer, dead primaries, empty databases, missing system
  collections, followers out of sync, dead leaders without a follower in sync, and
  broken edge indexes. The zombie callbacks, which are looked for after
  \<^verbatim>\<open>infected\<close> has been used, and \<^verbatim>\<open>violatedDistShardLike\<close>,
  \<^verbatim>\<open>noInsyncFollower\<close> and \<^verbatim>\<open>unplannedLeader\<close> have no part in it.
\<close>

theorem infected_iff_reported_finding:
  assumes "run eng ed stores dump = Inr r"
  shows "rr_infected r \<longleftrightarrow>
     zombies (rr_info r) \<noteq> [] \<or> zombieCoordinators_info (rr_info r) \<noteq> []
     \<or> correctFailoverCandidates (rr_info r) \<noteq> [] \<or> broken (rr_info r) \<noteq> []
     \<or> noPlanDatabases (rr_info r) \<noteq> [] \<or> noShardCollections (rr_info r) \<noteq> []
     \<or> realLeaderMissing (rr_info r) \<noteq> [] \<or> leaderOnDeadServer (rr_info r) \<noteq> []
     \<or> followerOnDeadServer (rr_info r) \<noteq> [] \<or> databasesDeadPrimaries (rr_info r) \<noteq> []
     \<or> emptyDatabases (rr_info r) \<noteq> [] \<or> missingCollections (rr_info r) \<noteq> []
     \<or> outOfSyncFollowers (rr_info r) \<noteq> [] \<or> noInsyncAndDeadLeader (rr_info r) \<noteq> []
     \<or> brokenEdgeIndexes (rr_info r) \<noteq> []"
proof -
  have "rr_infected r = infectedOf (rr_info r)"
    using assms by (auto simp: run_def andThen_def split: sum.splits)
  then show ?thesis
    by (simp add: infectedOf_def printPrimaries_def printDatabases_def printCollections_def
        printPrimaryShards_def printZombies_def printZombieCoordinators_def
        printCleanedFailoverCandidates_def printBroken_def printCollectionIntegrity_def
        printCurrentDatabasesDeadPrimaries_def printEmptyDatabases_def
        printMissingCollections_def printOutOfSyncFollowers_def printDistributionGroups_def
        printBrokenEdgeIndexes_def Let_def) blast
qed

text \<open>The theorem at the snapshot with a deleted database: the run returns and
  \<^verbatim>\<open>infected\<close> is true.\<close>

theorem infected_iff_reported_finding_witness:
  "run runOrder noDatabases None deletedDatabaseDump = Inr deletedDatabaseResult
   \<and> rr_infected deletedDatabaseResult
   \<and> noPlanDatabases (rr_info deletedDatabaseResult) \<noteq> []"
  using deletedDatabase_run [of runOrder]
    infected_iff_reported_finding [OF deletedDatabase_run [of runOrder]]
  by (simp add: deletedDatabaseResult_def)

text \<open>
  C4 as stated fails: one server has failed, a pending callback is registered for its
  endpoint, and nothing else is wrong. The run saves the zombie callback and
  \<^verbatim>\<open>infected\<close> is false, whatever the sort of the engine does.
\<close>

theorem zombie_callbacks_without_infected:
  "\<forall>eng. run eng noDatabases (Some pendingCallbacks) failedOnlyDump
     = Inr \<lparr>rr_info = emptyInfo\<lparr>callbacks := Some pendingCallbacks,
                                failedInstances := [''http://10.0.0.1:8529'']\<rparr>,
            rr_infected = False, rr_failover = [],
            rr_zombieCallbacks = [[(''http://10.0.0.1:8529/_api/agency/cb'', ''true'')]]\<rparr>"
  by (simp add: failedOnly_run)

subsection \<open>Absent subtrees\<close>

lemma andThen_fails:
  "(\<And>x. f x = Inl TypeError) \<Longrightarrow> andThen r f = Inl TypeError"
  by (cases r) (auto simp: andThen_def intro: error.exhaust)

lemma extractAll_fails:
  assumes "Plan dump = None \<or> Current dump = None \<or> Supervision dump = None \<or> Target dump = None"
  shows "extractAll eng ed stores dump = Inl TypeError"
proof -
  consider "Supervision dump = None" | "Plan dump = None"
    | "Current dump = None \<or> Target dump = None"
    using assms by auto
  then show ?thesis
  proof cases
    case 1
    then show ?thesis by (simp add: extractAll_def extractFailed_def andThen_def)
  next
    case 2
    then have "extractBrokenEdgeIndexes info dump = Inl TypeError" for info
      by (simp add: extractBrokenEdgeIndexes_def)
    then show ?thesis
      unfolding extractAll_def by (intro andThen_fails)
  next
    case 3
    then have "extractCleanedFailoverCandidates info dump = Inl TypeError" for info
      by (auto simp: extractCleanedFailoverCandidates_def split: option.splits)
    then have last: "andThen (extractCleanedFailoverCandidates info dump)
                 (\<lambda>i. extractBrokenEdgeIndexes i dump) = Inl TypeError" for info
      by (simp add: andThen_def)
    show ?thesis
      unfolding extractAll_def
      by (rule andThen_fails, rule andThen_fails, rule andThen_fails, rule andThen_fails,
          rule andThen_fails, rule andThen_fails, rule andThen_fails, rule andThen_fails,
          rule andThen_fails, rule andThen_fails, rule last)
  qed
qed

text \<open>
  C2, as amended. An absent subtree is not taken as empty: every extractor that reads
  it throws. Without \<^verbatim>\<open>Supervision\<close> extractFailed and zombieCoordinators throw;
  without \<^verbatim>\<open>Plan\<close> zombieCoordinators, extractCollectionIntegrity,
  extractDistributionGroups, extractOutOfSyncFollowers and extractBrokenEdgeIndexes
  throw; without \<^verbatim>\<open>Current\<close> zombieCoordinators,
  extractCurrentDatabasesDeadPrimaries, extractDistributionGroups,
  extractOutOfSyncFollowers and extractCleanedFailoverCandidates throw; without
  \<^verbatim>\<open>Target\<close> extractCleanedFailoverCandidates throws. No call is guarded, so where
  one of the four subtrees is absent the sequence of extractors, and with it the run,
  ends with a TypeError, and the extractors after the one that threw do not run.
\<close>

theorem extractors_need_every_subtree:
  "(Supervision dump = None \<longrightarrow>
      extractFailed info dump = Inl TypeError \<and> zombieCoordinators info dump = Inl TypeError)
   \<and> (Plan dump = None \<longrightarrow>
        zombieCoordinators info dump = Inl TypeError
        \<and> extractCollectionIntegrity info dump = Inl TypeError
        \<and> extractDistributionGroups eng info dump = Inl TypeError
        \<and> extractOutOfSyncFollowers info dump = Inl TypeError
        \<and> extractBrokenEdgeIndexes info dump = Inl TypeError)
   \<and> (Current dump = None \<longrightarrow>
        zombieCoordinators info dump = Inl TypeError
        \<and> extractCurrentDatabasesDeadPrimaries info dump = Inl TypeError
        \<and> extractDistributionGroups eng info dump = Inl TypeError
        \<and> extractOutOfSyncFollowers info dump = Inl TypeError
        \<and> extractCleanedFailoverCandidates info dump = Inl TypeError)
   \<and> (Target dump = None \<longrightarrow> extractCleanedFailoverCandidates info dump = Inl TypeError)
   \<and> (Plan dump = None \<or> Current dump = None \<or> Supervision dump = None \<or> Target dump = None
        \<longrightarrow> extractAll eng ed stores dump = Inl TypeError
            \<and> run eng ed stores dump = Inl TypeError)"
proof (intro conjI impI)
  assume a: "Plan dump = None \<or> Current dump = None \<or> Supervision dump = None \<or> Target dump = None"
  then show "extractAll eng ed stores dump = Inl TypeError" by (rule extractAll_fails)
  then show "run eng ed stores dump = Inl TypeError" by (simp add: run_def andThen_def)
qed (auto simp: extractFailed_def zombieCoordinators_def extractCollectionIntegrity_def
      extractDistributionGroups_def extractOutOfSyncFollowers_def extractBrokenEdgeIndexes_def
      extractCurrentDatabasesDeadPrimaries_def extractCleanedFailoverCandidates_def
      split: option.splits)

text \<open>The theorem at three snapshots: one without \<^verbatim>\<open>Supervision\<close>, one without
  \<^verbatim>\<open>Plan\<close> and one without \<^verbatim>\<open>Current\<close>.\<close>

theorem extractors_need_every_subtree_witness:
  "Supervision noSupervisionDump = None \<and> Plan noPlanDump = None
   \<and> Current noCurrentDump = None
   \<and> zombieCoordinators emptyInfo noSupervisionDump = Inl TypeError
   \<and> extractCollectionIntegrity emptyInfo noPlanDump = Inl TypeError
   \<and> extractCurrentDatabasesDeadPrimaries emptyInfo noCurrentDump = Inl TypeError
   \<and> run runOrder noDatabases None noSupervisionDump = Inl TypeError
   \<and> run runOrder noDatabases None noPlanDump = Inl TypeError
   \<and> run runOrder noDatabases None noCurrentDump = Inl TypeError"
  using extractors_need_every_subtree [of noSupervisionDump emptyInfo runOrder noDatabases None]
    extractors_need_every_subtree [of noPlanDump emptyInfo runOrder noDatabases None]
    extractors_need_every_subtree [of noCurrentDump emptyInfo runOrder noDatabases None]
  by (simp add: noSupervisionDump_def noPlanDump_def noCurrentDump_def)

text \<open>
  C2 as stated fails: without \<^verbatim>\<open>Supervision\<close> extractFailed throws and the run
  ends with its TypeError, although extractCollectionIntegrity, called on its own,
  would have returned its (empty) findings.
\<close>

theorem absent_supervision_aborts_run:
  "\<forall>eng. extractFailed emptyInfo noSupervisionDump = Inl TypeError
     \<and> run eng noDatabases None noSupervisionDump = Inl TypeError
     \<and> extractCollectionIntegrity emptyInfo noSupervisionDump = Inr emptyInfo"
  by (simp add: noSupervisionDump_def run_def extractAll_def andThen_def extractFailed_def
      extractCollectionIntegrity_def emptyInfo_def)

subsection \<open>The snapshot with a failed leader\<close>

lemma deadLeaderDump_Current:
  "Current deadLeaderDump = Some \<lparr>Current_Databases = [],
      Current_Collections = deadLeaderCurrent, Current_Coordinators = []\<rparr>"
  by (simp add: deadLeaderDump_def snapshot_def)

lemma deadLeader_primaries:
  "extractPrimaries emptyInfo deadLeaderDump
     = Inr (emptyInfo\<lparr>primaries := [(''PRMR-B'', goodServer), (''PRMR-C'', goodServer)]\<rparr>)"
  by (simp add: extractPrimaries_def deadLeaderDump_def snapshot_def goodServer_def
      failedServer_def)

lemma deadLeader_groups:
  "extractDistributionGroups runOrder
     (emptyInfo\<lparr>primaries := [(''PRMR-B'', goodServer), (''PRMR-C'', goodServer)]\<rparr>)
     deadLeaderDump = Inr deadLeaderInfo"
  by (simp add: deadLeaderDump_def deadLeaderPlan_def deadLeaderCurrent_def deadLeaderInfo_def
      deadLeaderGroups_def extract_defs)

lemma deadLeader_groups_legacy:
  "extractDistributionGroups (legacyOrder quickSort)
     (emptyInfo\<lparr>primaries := [(''PRMR-B'', goodServer), (''PRMR-C'', goodServer)]\<rparr>)
     deadLeaderDump = Inr deadLeaderInfo"
  by (simp add: deadLeaderDump_def deadLeaderPlan_def deadLeaderCurrent_def deadLeaderInfo_def
      deadLeaderGroups_def extract_defs)

lemma deadLeader_failover:
  "saveDistributionGroups runOrder deadLeaderInfo
     = Inr [\<lparr>fo_search = ''c1'', fo_shardIndex = 0,
              fo_candidates = [(''PRMR-B'', [], [''s1'', ''s2'']),
                               (''PRMR-C'', [''s2''], [''s1''])]\<rparr>]"
  by (simp add: saveDistributionGroups_def deadLeaderInfo_def deadLeaderGroups_def
      emptyInfo_def failoverCandidatesOf_def getProp_def atInt_def at_def aliveCandidates_def
      aliveCandidate_def hasOwnProperty_def ownKey_def mapSet_def noteInsync_def indexOf_def
      arraySort_def runOrder_def moreInsync_def without_def goodServer_def andThen_def)

lemma deadLeader_failover_legacy:
  "saveDistributionGroups (legacyOrder quickSort) deadLeaderInfo
     = Inr [\<lparr>fo_search = ''c1'', fo_shardIndex = 0,
              fo_candidates = [(''PRMR-B'', [], [''s1'', ''s2'']),
                               (''PRMR-C'', [''s2''], [''s1''])]\<rparr>]"
  by (simp add: saveDistributionGroups_def deadLeaderInfo_def deadLeaderGroups_def
      emptyInfo_def failoverCandidatesOf_def getProp_def atInt_def at_def aliveCandidates_def
      aliveCandidate_def hasOwnProperty_def ownKey_def mapSet_def noteInsync_def indexOf_def
      arraySort_def legacyOrder_def insertionSort_def moreInsync_def without_def
      goodServer_def andThen_def)

text \<open>The theorem of C10 at the snapshot whose leader \<open>PRMR-A\<close> has failed: the one case
  of a dead leader is a case of no follower in sync.\<close>

theorem dead_leader_cases_are_no_insync_cases_witness:
  "Plan deadLeaderDump = Some \<lparr>Plan_Databases = [(''d'', ''{}'')],
      Plan_Collections = deadLeaderPlan, Plan_Coordinators = []\<rparr>
   \<and> Current deadLeaderDump = Some \<lparr>Current_Databases = [],
      Current_Collections = deadLeaderCurrent, Current_Coordinators = []\<rparr>
   \<and> (\<exists>info'. extractDistributionGroups runOrder
                  (emptyInfo\<lparr>primaries := [(''PRMR-B'', goodServer), (''PRMR-C'', goodServer)]\<rparr>)
                  deadLeaderDump = Inr info'
         \<and> noInsyncAndDeadLeader info'
             = [\<lparr>sc_cid = ''c1'', sc_shard = ''s1'', sc_search = ''c1''\<rparr>]
         \<and> set (noInsyncAndDeadLeader info') \<subseteq> set (noInsyncFollower info'))"
proof -
  from dead_leader_cases_are_no_insync_cases [OF deadLeaderDump_Plan deadLeaderDump_Current,
      of runOrder "emptyInfo\<lparr>primaries := [(''PRMR-B'', goodServer), (''PRMR-C'', goodServer)]\<rparr>"]
  obtain info' where r: "extractDistributionGroups runOrder
                  (emptyInfo\<lparr>primaries := [(''PRMR-B'', goodServer), (''PRMR-C'', goodServer)]\<rparr>)
                  deadLeaderDump = Inr info'"
    and sub: "set (noInsyncAndDeadLeader info') \<subseteq> set (noInsyncFollower info')"
    by blast
  have "info' = deadLeaderInfo" using r deadLeader_groups by simp
  then have "noInsyncAndDeadLeader info'
             = [\<lparr>sc_cid = ''c1'', sc_shard = ''s1'', sc_search = ''c1''\<rparr>]"
    by (simp add: deadLeaderInfo_def)
  then show ?thesis
    using r sub deadLeaderDump_Plan deadLeaderDump_Current by blast
qed

text \<open>
  C3. The candidates for a failover should be listed with the one that is in sync for
  the most sibling shards first. In this snapshot the leader \<open>PRMR-A\<close> of shard \<open>s1\<close> has
  failed; of the live planned servers \<open>PRMR-B\<close> is in sync for no shard of the group and
  \<open>PRMR-C\<close> for one (\<open>s2\<close>). The comparator \<^verbatim>\<open>l[1].length > r[1].length\<close> answers
  \<^verbatim>\<open>false\<close> for \<open>(PRMR-B, PRMR-C)\<close>, so \<open>PRMR-B\<close> stays first: the list is printed with the
  candidate that is in sync for the fewest shards first. This is so with the sort of
  either engine.
\<close>

theorem failover_candidates_fewest_in_sync_first:
  "andThen (andThen (extractPrimaries emptyInfo deadLeaderDump)
                    (\<lambda>i. extractDistributionGroups runOrder i deadLeaderDump))
           (saveDistributionGroups runOrder)
     = Inr [\<lparr>fo_search = ''c1'', fo_shardIndex = 0,
              fo_candidates = [(''PRMR-B'', [], [''s1'', ''s2'']),
                               (''PRMR-C'', [''s2''], [''s1''])]\<rparr>]
   \<and> andThen (andThen (extractPrimaries emptyInfo deadLeaderDump)
                    (\<lambda>i. extractDistributionGroups (legacyOrder quickSort) i deadLeaderDump))
           (saveDistributionGroups (legacyOrder quickSort))
     = Inr [\<lparr>fo_search = ''c1'', fo_shardIndex = 0,
              fo_candidates = [(''PRMR-B'', [], [''s1'', ''s2'']),
                               (''PRMR-C'', [''s2''], [''s1''])]\<rparr>]
   \<and> moreInsync (''PRMR-B'', []) (''PRMR-C'', [''s2'']) = False"
proof -
  have "andThen (andThen (extractPrimaries emptyInfo deadLeaderDump)
                    (\<lambda>i. extractDistributionGroups runOrder i deadLeaderDump))
           (saveDistributionGroups runOrder) = saveDistributionGroups runOrder deadLeaderInfo"
    by (simp add: deadLeader_primaries deadLeader_groups andThen_def)
  moreover have "andThen (andThen (extractPrimaries emptyInfo deadLeaderDump)
                    (\<lambda>i. extractDistributionGroups (legacyOrder quickSort) i deadLeaderDump))
           (saveDistributionGroups (legacyOrder quickSort))
        = saveDistributionGroups (legacyOrder quickSort) deadLeaderInfo"
    by (simp add: deadLeader_primaries deadLeader_groups_legacy andThen_def)
  ultimately show ?thesis
    by (simp add: deadLeader_failover deadLeader_failover_legacy moreInsync_def)
qed

subsection \<open>Identical layouts\<close>

text \<open>
  C1. A group whose members all have the same sorted planned layout should add nothing
  to \<^verbatim>\<open>violatedDistShardLike\<close>. In this snapshot \<open>c2\<close> distributes its shards like
  \<open>c1\<close> and both have the layout \<open>s1 -> [PRMR-A]\<close>, planned and observed. The test
  \<^verbatim>\<open>comp[i] !== myPlan[i]\<close> compares two objects that were created in different
  rounds of the loop, so it holds, and the key \<open>c1\<close> is added. This is so with the
  sort of either engine.
\<close>

theorem identical_layouts_are_reported:
  "andThen (extractPrimaries emptyInfo identicalLayoutsDump)
           (\<lambda>i. extractDistributionGroups runOrder i identicalLayoutsDump)
     = Inr (emptyInfo\<lparr>primaries := [(''PRMR-A'', goodServer)],
         shardGroups :=
           [(''c1'',
             \<lparr>sg_plan =
                [(''c1'', [\<lparr>le_ref = 0, le_shard = ''s1'', le_servers = [''PRMR-A'']\<rparr>]),
                 (''c2'', [\<lparr>le_ref = 2, le_shard = ''s1'', le_servers = [''PRMR-A'']\<rparr>])],
              sg_current =
                [(''c1'', [\<lparr>le_ref = 1, le_shard = ''s1'', le_servers = [''PRMR-A'']\<rparr>]),
                 (''c2'', [\<lparr>le_ref = 3, le_shard = ''s1'', le_servers = [''PRMR-A'']\<rparr>])],
              sg_db = ''d''\<rparr>)],
         violatedDistShardLike := [''c1'']\<rparr>)
   \<and> andThen (extractPrimaries emptyInfo identicalLayoutsDump)
           (\<lambda>i. extractDistributionGroups (legacyOrder quickSort) i identicalLayoutsDump)
     = Inr (emptyInfo\<lparr>primaries := [(''PRMR-A'', goodServer)],
         shardGroups :=
           [(''c1'',
             \<lparr>sg_plan =
                [(''c1'', [\<lparr>le_ref = 0, le_shard = ''s1'', le_servers = [''PRMR-A'']\<rparr>]),
                 (''c2'', [\<lparr>le_ref = 2, le_shard = ''s1'', le_servers = [''PRMR-A'']\<rparr>])],
              sg_current =
                [(''c1'', [\<lparr>le_ref = 1, le_shard = ''s1'', le_servers = [''PRMR-A'']\<rparr>]),
                 (''c2'', [\<lparr>le_ref = 3, le_shard = ''s1'', le_servers = [''PRMR-A'']\<rparr>])],
              sg_db = ''d''\<rparr>)],
         violatedDistShardLike := [''c1'']\<rparr>)"
  by (simp add: identicalLayoutsDump_def extract_defs)

subsection \<open>A follower listed twice\<close>

text \<open>
  C5 as stated fails: the planned and the observed list are both \<open>[PRMR-A, PRMR-A]\<close>. The
  leaders agree and the planned follower \<open>PRMR-A\<close> is at position 1 of the observed list,
  but \<^verbatim>\<open>current.indexOf\<close> finds it at position 0 and the shard is recorded.
\<close>

theorem duplicate_follower_is_flagged:
  "extractOutOfSyncFollowers emptyInfo duplicateServerDump
     = Inr (emptyInfo\<lparr>outOfSyncFollowers :=
         [\<lparr>oos_db = ''d'', oos_name = ''c1'', oos_shard = ''s1'',
            oos_servers = [''PRMR-A'', ''PRMR-A''], oos_current = [''PRMR-A'', ''PRMR-A'']\<rparr>]\<rparr>)
   \<and> at [''PRMR-A'', ''PRMR-A''] 0 = at [''PRMR-A'', ''PRMR-A''] 0
   \<and> set (tl [''PRMR-A'', ''PRMR-A'']) \<subseteq> set (tl [''PRMR-A'', ''PRMR-A''])"
  by (simp add: duplicateServerDump_def extract_defs)

text \<open>The theorem of C5 at the shard \<open>s2\<close> of the snapshot with the failed leader:
  the planned follower \<open>PRMR-B\<close> is not in the observed list.\<close>

theorem out_of_sync_iff_witness:
  "\<exists>info'. extractOutOfSyncFollowers emptyInfo deadLeaderDump = Inr info'
     \<and> \<lparr>oos_db = ''d'', oos_name = ''c2'', oos_shard = ''s2'',
         oos_servers = [''PRMR-A'', ''PRMR-B'', ''PRMR-C''], oos_current = [''PRMR-A'', ''PRMR-C'']\<rparr>
        \<in> set (outOfSyncFollowers info')"
proof -
  have h2: "\<not> ownKey (Current_Collections \<lparr>Current_Databases = [],
      Current_Collections = deadLeaderCurrent, Current_Coordinators = []\<rparr>) ''hasOwnProperty''"
    by (simp add: deadLeaderCurrent_def ownKey_def)
  have h3: "(''d'', [(''c1'', plainCollection [(''s1'', [''PRMR-A'', ''PRMR-B'', ''PRMR-C''])] None),
               (''c2'', plainCollection [(''s2'', [''PRMR-A'', ''PRMR-B'', ''PRMR-C''])] (Some ''c1''))])
           \<in> set (Plan_Collections \<lparr>Plan_Databases = [(''d'', ''{}'')],
      Plan_Collections = deadLeaderPlan, Plan_Coordinators = []\<rparr>)"
    by (simp add: deadLeaderPlan_def)
  have h4: "(''c2'', plainCollection [(''s2'', [''PRMR-A'', ''PRMR-B'', ''PRMR-C''])] (Some ''c1''))
      \<in> set [(''c1'', plainCollection [(''s1'', [''PRMR-A'', ''PRMR-B'', ''PRMR-C''])] None),
               (''c2'', plainCollection [(''s2'', [''PRMR-A'', ''PRMR-B'', ''PRMR-C''])] (Some ''c1''))]"
    by simp
  have h5: "(''s2'', [''PRMR-A'', ''PRMR-B'', ''PRMR-C''])
      \<in> set (shardEntries (shards (plainCollection [(''s2'', [''PRMR-A'', ''PRMR-B'', ''PRMR-C''])] (Some ''c1''))))"
    by (simp add: plainCollection_def)
  have h6: "currentServers (Current_Collections \<lparr>Current_Databases = [],
      Current_Collections = deadLeaderCurrent, Current_Coordinators = []\<rparr>) ''d'' ''c2'' ''s2''
        = Some [''PRMR-A'', ''PRMR-C'']"
    by (simp add: deadLeaderCurrent_def currentServers_def getProp_def observed_def)
  from out_of_sync_iff [OF deadLeaderDump_Plan deadLeaderDump_Current h2 h3 h4 h5 h6,
      of emptyInfo]
  show ?thesis by (auto simp: at_def)
qed

end
